theory Spec2Isabelle
  imports Main "HOL-Library.List_Lexorder"
begin

section \<open>JavaScript strings\<close>

text \<open>
  A JavaScript string is a sequence of UTF-16 code units. A code unit is modelled as an
  integer (its number, from 0 to 65535), so that the white space and line terminators beyond ASCII (which
  \<open>trim\<close> and the regular expression of the report see) and the characters beyond
  ASCII in the report are what they are in the program. \<open>lit\<close> turns an ASCII literal into
  its code units.
\<close>

type_synonym jstring = "int list"

definition lit :: "string \<Rightarrow> jstring" where
  "lit s = map of_char s"

definition nl :: jstring where
  \<comment> \<open>the escape \<open>\n\<close>\<close>
  "nl = [10]"

definition backtick :: jstring where
  "backtick = [96]"

definition startsWith :: "jstring \<Rightarrow> jstring \<Rightarrow> bool" where
  \<comment> \<open>\<open>s.startsWith(p)\<close>\<close>
  "startsWith s p = (take (length p) s = p)"

fun includesStr :: "jstring \<Rightarrow> jstring \<Rightarrow> bool" where
  \<comment> \<open>\<open>s.includes(p)\<close>\<close>
  "includesStr [] p = (p = [])"
| "includesStr (c # cs) p = (startsWith (c # cs) p \<or> includesStr cs p)"

definition isLineTerminator :: "int \<Rightarrow> bool" where
  \<comment> \<open>LF, CR, LINE SEPARATOR, PARAGRAPH SEPARATOR: what \<open>.\<close> of a regular expression
     does not match\<close>
  "isLineTerminator c = (c = 10 \<or> c = 13 \<or> c = 8232 \<or> c = 8233)"

definition isWhiteSpace :: "int \<Rightarrow> bool" where
  \<comment> \<open>WhiteSpace and LineTerminator of ECMAScript: what \<open>trim\<close> strips and \<open>\s\<close> matches\<close>
  "isWhiteSpace c =
     (c = 9 \<or> c = 11 \<or> c = 12 \<or> c = 32 \<or> c = 160 \<or> c = 5760 \<or> (8192 \<le> c \<and> c \<le> 8202)
      \<or> c = 8239 \<or> c = 8287 \<or> c = 12288 \<or> c = 65279 \<or> isLineTerminator c)"

definition trim :: "jstring \<Rightarrow> jstring" where
  \<comment> \<open>\<open>s.trim()\<close>\<close>
  "trim s = rev (dropWhile isWhiteSpace (rev (dropWhile isWhiteSpace s)))"

fun joinWith :: "jstring \<Rightarrow> jstring list \<Rightarrow> jstring" where
  \<comment> \<open>\<open>xs.join(sep)\<close> on an array of strings\<close>
  "joinWith sep [] = []"
| "joinWith sep [x] = x"
| "joinWith sep (x # y # ys) = x @ sep @ joinWith sep (y # ys)"

fun showNat :: "nat \<Rightarrow> jstring" where
  \<comment> \<open>the decimal digits of a natural number\<close>
  "showNat n = (if n < 10 then [48 + int n] else showNat (n div 10) @ [48 + int (n mod 10)])"

declare showNat.simps [simp del]

definition showInt :: "int \<Rightarrow> jstring" where
  \<comment> \<open>\<open>String(n)\<close> for an integer-valued Number (below \<open>10^21\<close> in magnitude, where
     JavaScript still prints every digit)\<close>
  "showInt i = (if i < 0 then lit ''-'' @ showNat (nat (- i)) else showNat (nat i))"

section \<open>JavaScript values\<close>

text \<open>
  The responses of the Hedera tools are arbitrary JavaScript values. An object carries
  its properties (an association list; a name bound twice reads as its last binding) and
  what its \<open>toString\<close> is: a method returning a string (a plain object inherits the one
  that returns \<open>[object Object]\<close>; an SDK \<open>TopicId\<close> returns \<open>shard.realm.num\<close>), a
  method that throws, or no method at all. A Number is carried as the text that
  \<open>String\<close> gives for it; the program never computes with a number of a response.
\<close>

datatype tostr = ToStringReturns jstring | ToStringThrows | ToStringMissing

datatype jsval =
    JUndefined
  | JNull
  | JBool bool
  | JNum jstring
  | JStr jstring
  | JArr "jsval list"
  | JObj "(jstring \<times> jsval) list" tostr

datatype jstype = TUndefined | TObject | TBoolean | TNumber | TString

fun typeof :: "jsval \<Rightarrow> jstype" where
  "typeof JUndefined = TUndefined"
| "typeof JNull = TObject"
| "typeof (JBool b) = TBoolean"
| "typeof (JNum r) = TNumber"
| "typeof (JStr s) = TString"
| "typeof (JArr xs) = TObject"
| "typeof (JObj fs ts) = TObject"

fun typeofText :: "jstype \<Rightarrow> jstring" where
  "typeofText TUndefined = lit ''undefined''"
| "typeofText TObject = lit ''object''"
| "typeofText TBoolean = lit ''boolean''"
| "typeofText TNumber = lit ''number''"
| "typeofText TString = lit ''string''"

fun truthy :: "jsval \<Rightarrow> bool" where
  "truthy JUndefined = False"
| "truthy JNull = False"
| "truthy (JBool b) = b"
| "truthy (JNum r) = (r \<noteq> lit ''0'' \<and> r \<noteq> lit ''NaN'')"
| "truthy (JStr s) = (s \<noteq> [])"
| "truthy (JArr xs) = True"
| "truthy (JObj fs ts) = True"

fun getProp :: "jsval \<Rightarrow> jstring \<Rightarrow> jsval" where
  \<comment> \<open>\<open>v.k\<close> for the names the program reads (\<open>receipt\<close>, \<open>topicId\<close>, \<open>messages\<close>,
     \<open>message\<close>), which no built-in prototype defines; never called on
     \<open>undefined\<close> or \<open>null\<close> where the program guards the read\<close>
  "getProp (JObj fs ts) k = (case map_of (rev fs) k of Some v \<Rightarrow> v | None \<Rightarrow> JUndefined)"
| "getProp v k = JUndefined"

fun isArray :: "jsval \<Rightarrow> bool" where
  "isArray (JArr xs) = True"
| "isArray v = False"

fun elements :: "jsval \<Rightarrow> jsval list" where
  "elements (JArr xs) = xs"
| "elements v = []"

fun jsToString :: "jsval \<Rightarrow> jstring option" where
  \<comment> \<open>the conversion of a template literal \<open>${v}\<close>; \<open>None\<close> when it throws\<close>
  "jsToString JUndefined = Some (lit ''undefined'')"
| "jsToString JNull = Some (lit ''null'')"
| "jsToString (JBool b) = Some (if b then lit ''true'' else lit ''false'')"
| "jsToString (JNum r) = Some r"
| "jsToString (JStr s) = Some s"
| "jsToString (JArr xs) =
     map_option (joinWith (lit '',''))
       (those (map (\<lambda>x. if x = JUndefined \<or> x = JNull then Some [] else jsToString x) xs))"
| "jsToString (JObj fs ts) = (case ts of ToStringReturns s \<Rightarrow> Some s | _ \<Rightarrow> None)"

fun hasToString :: "jsval \<Rightarrow> bool" where
  \<comment> \<open>\<open>typeof v.toString === 'function'\<close> for a value of type object that is not null\<close>
  "hasToString (JObj fs ts) = (ts \<noteq> ToStringMissing)"
| "hasToString (JArr xs) = True"
| "hasToString v = False"

definition newError :: "jstring \<Rightarrow> jsval" where
  \<comment> \<open>\<open>new Error(m)\<close>\<close>
  "newError m = JObj [(lit ''message'', JStr m)] (ToStringReturns (lit ''Error: '' @ m))"

text \<open>
  What the collaborator does on one \<open>invoke\<close>: it returns a value, or it throws (the
  promise rejects with) a value. The three tools are functions of their arguments.
\<close>

datatype invoke = Returns jsval | Throws jsval

record tools =
  createTopic :: "jstring \<Rightarrow> invoke"
  submitMessage :: "jstring \<Rightarrow> jstring \<Rightarrow> invoke"
  getMessages :: "jstring \<Rightarrow> invoke"

datatype status = StatusSuccess | StatusError

text \<open>
  A public operation resolves to its result object, or the fault raised inside its
  \<open>catch\<close> block leaves it (the returned promise rejects).
\<close>

datatype fault = HandlerFault

record createResult =
  cr_topicId :: "jstring option"
  cr_status :: status
  cr_message :: jstring


record tallyResult =
  tr_status :: status
  tr_approvals :: nat
  tr_isApproved :: bool
  tr_message :: jstring

definition errorMessage :: "jsval \<Rightarrow> jstring option" where
  \<comment> \<open>\<open>${error.message}\<close> in a \<open>catch (error)\<close> block: reading a property of
     \<open>undefined\<close> or \<open>null\<close> throws, and so does a message that has no text\<close>
  "errorMessage e =
     (if e = JUndefined \<or> e = JNull then None else jsToString (getProp e (lit ''message'')))"

section \<open>createProposal\<close>

definition memoOf :: "jstring \<Rightarrow> jstring" where
  "memoOf proposalDescription = lit ''Approvr Proposal: '' @ take 50 proposalDescription @ lit ''...''"

definition stringifyUndefinedError :: jsval where
  \<comment> \<open>the TypeError of \<open>JSON.stringify(topicResponse).substring(0, 500)\<close> when
     \<open>JSON.stringify\<close> returns \<open>undefined\<close> (the text is V8's)\<close>
  "stringifyUndefinedError =
     JObj [(lit ''message'', JStr (lit ''Cannot read properties of undefined (reading '' @ [39]
              @ lit ''substring'' @ [39] @ lit '')''))]
       (ToStringReturns (lit ''TypeError''))"

definition parseTopicResponse :: "(jstring \<Rightarrow> jsval option) \<Rightarrow> jsval \<Rightarrow> jsval + jsval" where
  \<comment> \<open>\<open>parse\<close> is \<open>JSON.parse\<close>: \<open>None\<close> when it throws\<close>
  "parseTopicResponse parse topicResponse =
     (case topicResponse of
        JStr s \<Rightarrow>
          (case parse s of
             Some v \<Rightarrow> Inr v
           | None \<Rightarrow> Inl (newError (lit ''Tool response was a string but could not be parsed as JSON.'')))
      | _ \<Rightarrow>
          if typeof topicResponse = TObject \<and> topicResponse \<noteq> JNull then Inr topicResponse
          else Inl (newError (lit ''Tool response was neither a string nor a valid object.'')))"

definition callToString :: "jsval \<Rightarrow> jstring option" where
  \<comment> \<open>\<open>v.toString()\<close> for an object or an array that has the method; \<open>None\<close> when the
     call throws\<close>
  "callToString v = jsToString v"

definition convertTopicId :: "jsval \<Rightarrow> jstring option" where
  \<comment> \<open>the body of the branches of priority 3 and 4: \<open>null\<close> stays when the text has no
     dot, is empty, or the call throws\<close>
  "convertTopicId v =
     (case callToString v of
        Some potentialId \<Rightarrow>
          if potentialId \<noteq> [] \<and> includesStr potentialId (lit ''.'') then Some potentialId
          else None
      | None \<Rightarrow> None)"

definition stringOf :: "jsval \<Rightarrow> jstring option" where
  "stringOf v = (case v of JStr s \<Rightarrow> Some s | _ \<Rightarrow> None)"

definition extractTopicId :: "jsval \<Rightarrow> jstring option" where
  \<comment> \<open>the variable \<open>topicId\<close> after the chain of priorities; \<open>None\<close> is \<open>null\<close>\<close>
  "extractTopicId parsedResponse =
     (if truthy parsedResponse \<and> typeof parsedResponse = TObject then
        (let receipt = getProp parsedResponse (lit ''receipt'');
             top = getProp parsedResponse (lit ''topicId'')
         in
           if truthy receipt \<and> typeof receipt = TObject
              \<and> typeof (getProp receipt (lit ''topicId'')) = TString
           then stringOf (getProp receipt (lit ''topicId''))
           else if typeof top = TString then stringOf top
           else if truthy top \<and> typeof top = TObject \<and> hasToString top then convertTopicId top
           else if truthy receipt \<and> typeof receipt = TObject
                   \<and> truthy (getProp receipt (lit ''topicId''))
                   \<and> typeof (getProp receipt (lit ''topicId'')) = TObject
                   \<and> hasToString (getProp receipt (lit ''topicId''))
           then convertTopicId (getProp receipt (lit ''topicId''))
           else None)
      else None)"

definition extractionError :: "jsval \<Rightarrow> jsval" where
  "extractionError topicResponse =
     newError (lit ''Failed to extract Topic ID string from createTopic response. Response type was ''
               @ typeofText (typeof topicResponse) @ lit ''. Check logs above.'')"

definition initialMessage :: "jstring \<Rightarrow> jstring list \<Rightarrow> int \<Rightarrow> jstring" where
  "initialMessage proposalDescription approvers threshold =
     lit ''Proposal: '' @ proposalDescription @ nl
     @ lit ''Approvers: '' @ joinWith (lit '', '') approvers @ nl
     @ lit ''Threshold: '' @ showInt threshold"

definition createProposalBody ::
  "(jstring \<Rightarrow> jsval option) \<Rightarrow> tools \<Rightarrow> jstring \<Rightarrow> jstring list \<Rightarrow> int \<Rightarrow> jsval + createResult" where
  \<comment> \<open>the \<open>try\<close> block: \<open>Inl\<close> is the value thrown in it\<close>
  "createProposalBody parse t proposalDescription approvers threshold =
     (case createTopic t (memoOf proposalDescription) of
        Throws e \<Rightarrow> Inl e
      | Returns topicResponse \<Rightarrow>
          if topicResponse = JUndefined then Inl stringifyUndefinedError
          else
            (case parseTopicResponse parse topicResponse of
               Inl e \<Rightarrow> Inl e
             | Inr parsedResponse \<Rightarrow>
                 (case extractTopicId parsedResponse of
                    None \<Rightarrow> Inl (extractionError topicResponse)
                  | Some topicId \<Rightarrow>
                      if topicId = [] then Inl (extractionError topicResponse)
                      else
                        (case submitMessage t topicId
                                (initialMessage proposalDescription approvers threshold) of
                           Throws e \<Rightarrow> Inl e
                         | Returns r \<Rightarrow>
                             Inr \<lparr> cr_topicId = Some topicId, cr_status = StatusSuccess,
                                   cr_message = lit ''Proposal created. Share this Topic ID: '' @ topicId \<rparr>))))"

definition createProposal ::
  "(jstring \<Rightarrow> jsval option) \<Rightarrow> tools \<Rightarrow> jstring \<Rightarrow> jstring list \<Rightarrow> int \<Rightarrow> fault + createResult" where
  "createProposal parse t proposalDescription approvers threshold =
     (case createProposalBody parse t proposalDescription approvers threshold of
        Inr r \<Rightarrow> Inr r
      | Inl e \<Rightarrow>
          (case errorMessage e of
             None \<Rightarrow> Inl HandlerFault
           | Some m \<Rightarrow>
               Inr \<lparr> cr_topicId = None, cr_status = StatusError,
                     cr_message = lit ''Failed to create proposal: '' @ m \<rparr>))"

section \<open>submitApproval\<close>



section \<open>tallyApprovals\<close>

definition parseMessagesResponse :: "(jstring \<Rightarrow> jsval option) \<Rightarrow> jsval \<Rightarrow> jsval + jsval" where
  \<comment> \<open>\<open>parsedMessagesResponse\<close>; \<open>Inl\<close> is the error thrown for a string that
     \<open>JSON.parse\<close> refuses\<close>
  "parseMessagesResponse parse messagesResponse =
     (case messagesResponse of
        JStr s \<Rightarrow>
          (case parse s of
             Some v \<Rightarrow> Inr v
           | None \<Rightarrow> Inl (newError (lit ''get_topic_messages_query_tool returned an unparsable string.'')))
      | _ \<Rightarrow> Inr messagesResponse)"

definition extractMessages :: "jsval \<Rightarrow> jsval list" where
  \<comment> \<open>the variable \<open>messages\<close>: it starts as \<open>[]\<close> and is an array on every path, so the
     check \<open>!Array.isArray(messages)\<close> that follows never throws\<close>
  "extractMessages parsedMessagesResponse =
     (if isArray parsedMessagesResponse then elements parsedMessagesResponse
      else if truthy parsedMessagesResponse \<and> typeof parsedMessagesResponse = TObject then
        (if isArray (getProp parsedMessagesResponse (lit ''messages''))
         then elements (getProp parsedMessagesResponse (lit ''messages''))
         else [])
      else [])"

definition hasMessageText :: "jsval \<Rightarrow> bool" where
  \<comment> \<open>\<open>msgObj && typeof msgObj === 'object' && typeof msgObj.message === 'string'\<close>\<close>
  "hasMessageText msgObj =
     (truthy msgObj \<and> typeof msgObj = TObject \<and> typeof (getProp msgObj (lit ''message'')) = TString)"

definition messageText :: "jsval \<Rightarrow> jstring" where
  \<comment> \<open>\<open>msgObj.message\<close>, read where it is a string\<close>
  "messageText msgObj = (case getProp msgObj (lit ''message'') of JStr s \<Rightarrow> s | _ \<Rightarrow> [])"

text \<open>
  The \<open>Set\<close> of valid approvals is a list without repetition, in insertion order:
  \<open>add\<close> appends an element that is not there, \<open>size\<close> is the length, \<open>has\<close> is
  membership.
\<close>

definition setAdd :: "jstring list \<Rightarrow> jstring \<Rightarrow> jstring list" where
  "setAdd validApprovals x = (if x \<in> set validApprovals then validApprovals else validApprovals @ [x])"

definition countStep :: "jstring list \<Rightarrow> jstring list \<Rightarrow> jsval \<Rightarrow> jstring list" where
  \<comment> \<open>one turn of the first \<open>for (const msgObj of messages)\<close>\<close>
  "countStep approvers validApprovals msgObj =
     (if hasMessageText msgObj then
        (let messageContent = messageText msgObj in
           if startsWith messageContent (lit ''APPROVE:'') then
             (let accountId = trim (drop (length (lit ''APPROVE:'')) messageContent) in
                if accountId \<in> set approvers then setAdd validApprovals accountId
                else validApprovals)
           else validApprovals)
      else validApprovals)"

fun countApprovals :: "jstring list \<Rightarrow> jsval list \<Rightarrow> jstring list \<Rightarrow> jstring list" where
  "countApprovals approvers [] validApprovals = validApprovals"
| "countApprovals approvers (msgObj # messages) validApprovals =
     countApprovals approvers messages (countStep approvers validApprovals msgObj)"

definition descMatch :: "jstring \<Rightarrow> jstring option" where
  \<comment> \<open>\<open>descLine.match(/^Proposal:\s*(.+)$/)\<close>, its group 1: \<open>\s*\<close> takes the longest run
     of white space after which \<open>(.+)$\<close> still matches, that is, the rest is not empty
     and has no line terminator\<close>
  "descMatch descLine =
     (if \<not> startsWith descLine (lit ''Proposal:'') then None
      else
        (let s = drop (length (lit ''Proposal:'')) descLine;
             n = length (takeWhile isWhiteSpace s)
         in map_option (\<lambda>k. drop k s)
              (find (\<lambda>k. drop k s \<noteq> [] \<and> \<not> list_ex isLineTerminator (drop k s))
                 (rev [0..<Suc n]))))"

definition firstLine :: "jstring \<Rightarrow> jstring" where
  \<comment> \<open>\<open>content.split('\n')[0]\<close>\<close>
  "firstLine content = takeWhile (\<lambda>c. c \<noteq> 10) content"

record proposalDetails =
  proposalDescription :: jstring
  foundApproversList :: "jstring list"
  foundThreshold :: jstring

definition detailsNotFound :: proposalDetails where
  "detailsNotFound =
     \<lparr> proposalDescription = lit ''Proposal details not found.'',
       foundApproversList = [],
       foundThreshold = lit ''N/A'' \<rparr>"

definition readProposal :: "jstring list \<Rightarrow> int \<Rightarrow> jstring \<Rightarrow> proposalDetails \<Rightarrow> proposalDetails" where
  \<comment> \<open>the body of \<open>if (content.startsWith("Proposal:"))\<close>, up to its \<open>break\<close>\<close>
  "readProposal approvers threshold content d =
     \<lparr> proposalDescription =
         (case descMatch (firstLine content) of
            Some g \<Rightarrow> trim g
          | None \<Rightarrow> proposalDescription d),
       foundApproversList = approvers,
       foundThreshold = showInt threshold \<rparr>"

fun findProposal :: "jstring list \<Rightarrow> int \<Rightarrow> jsval list \<Rightarrow> proposalDetails \<Rightarrow> proposalDetails" where
  \<comment> \<open>the second \<open>for (const msgObj of messages)\<close>, which stops at the first message
     that starts with \<open>Proposal:\<close>\<close>
  "findProposal approvers threshold [] d = d"
| "findProposal approvers threshold (msgObj # messages) d =
     (if hasMessageText msgObj \<and> startsWith (messageText msgObj) (lit ''Proposal:'')
      then readProposal approvers threshold (messageText msgObj) d
      else findProposal approvers threshold messages d)"

definition approverLine :: "jstring list \<Rightarrow> jstring \<Rightarrow> jstring" where
  "approverLine validApprovals approver =
     lit ''- '' @ approver @ lit '' ''
     @ (if approver \<in> set validApprovals then lit ''(approved)'' else lit ''(not approved)'') @ nl"

fun appendApproverLines :: "jstring list \<Rightarrow> jstring list \<Rightarrow> jstring \<Rightarrow> jstring" where
  \<comment> \<open>\<open>for (const approver of ...) message += ...\<close>\<close>
  "appendApproverLines validApprovals [] message = message"
| "appendApproverLines validApprovals (approver # rest) message =
     appendApproverLines validApprovals rest (message @ approverLine validApprovals approver)"

definition hashscanTopicUrl :: "jstring \<Rightarrow> jstring" where
  "hashscanTopicUrl topicId = lit ''https://hashscan.io/testnet/topic/'' @ topicId"

definition approvedHead :: "jstring \<Rightarrow> nat \<Rightarrow> proposalDetails \<Rightarrow> jstring" where
  \<comment> \<open>the message before the list of approvers; the source text opens it with the
     three characters U+00E2, U+0153, U+2026\<close>
  "approvedHead topicId approvalCount d =
     [226, 339, 8230] @ lit '' Proposal Approved!'' @ nl @ nl
     @ lit ''The required number of approvals ('' @ showNat approvalCount @ lit ''/''
     @ foundThreshold d @ lit '') has been reached for the proposal in topic '' @ backtick
     @ topicId @ backtick @ lit ''.'' @ nl @ nl
     @ lit ''Proposal Details:'' @ nl @ proposalDescription d @ nl @ nl
     @ lit ''Approvers:'' @ nl"

definition approvedTail :: "jstring \<Rightarrow> jstring" where
  \<comment> \<open>the message after the list of approvers; the source text opens the link line
     with the four characters U+00F0, U+0178, U+201D, U+2014\<close>
  "approvedTail topicId =
     nl @ lit ''Next Steps:'' @ nl
     @ lit ''The action described in the proposal can now be executed manually by the relevant party, as consensus has been recorded on Hedera.''
     @ nl
     @ [240, 376, 8221, 8212] @ lit '' View the immutable approval record on HashScan: ''
     @ hashscanTopicUrl topicId @ nl
     @ lit ''The topic messages provide cryptographic proof of consensus.''"

definition approvedMessage ::
  "jstring \<Rightarrow> jstring list \<Rightarrow> int \<Rightarrow> jsval list \<Rightarrow> jstring list \<Rightarrow> jstring" where
  "approvedMessage topicId approvers threshold messages validApprovals =
     (let d = findProposal approvers threshold messages detailsNotFound in
        appendApproverLines validApprovals (sort (foundApproversList d))
          (approvedHead topicId (length validApprovals) d)
        @ approvedTail topicId)"

definition pendingMessage :: "nat \<Rightarrow> int \<Rightarrow> jstring" where
  "pendingMessage approvalCount threshold =
     lit ''Current tally: '' @ showNat approvalCount @ lit ''/'' @ showInt threshold
     @ lit '' approvals.''
     @ lit '' Need '' @ showInt (threshold - int approvalCount) @ lit '' more approval(s).''"

definition tallyMessages :: "jstring \<Rightarrow> jstring list \<Rightarrow> int \<Rightarrow> jsval list \<Rightarrow> tallyResult" where
  \<comment> \<open>steps 3 to the \<open>return\<close> of the \<open>try\<close> block, on the array \<open>messages\<close>\<close>
  "tallyMessages topicId approvers threshold messages =
     (let validApprovals = countApprovals approvers messages [];
          approvalCount = length validApprovals;
          approved = (threshold \<le> int approvalCount)
      in \<lparr> tr_status = StatusSuccess,
           tr_approvals = approvalCount,
           tr_isApproved = approved,
           tr_message =
             (if approved then approvedMessage topicId approvers threshold messages validApprovals
              else pendingMessage approvalCount threshold) \<rparr>)"

definition tallyApprovals ::
  "(jstring \<Rightarrow> jsval option) \<Rightarrow> tools \<Rightarrow> jstring \<Rightarrow> jstring list \<Rightarrow> int \<Rightarrow> fault + tallyResult" where
  "tallyApprovals parse t topicId approvers threshold =
     (case (case getMessages t topicId of
              Throws e \<Rightarrow> Inl e
            | Returns messagesResponse \<Rightarrow>
                (case parseMessagesResponse parse messagesResponse of
                   Inl e \<Rightarrow> Inl e
                 | Inr parsedMessagesResponse \<Rightarrow>
                     Inr (tallyMessages topicId approvers threshold
                            (extractMessages parsedMessagesResponse)))) of
        Inr r \<Rightarrow> Inr r
      | Inl e \<Rightarrow>
          (case errorMessage e of
             None \<Rightarrow> Inl HandlerFault
           | Some m \<Rightarrow>
               Inr \<lparr> tr_status = StatusError, tr_approvals = 0, tr_isApproved = False,
                     tr_message = lit ''Failed to tally approvals: '' @ m \<rparr>))"

section \<open>Notions of the specification\<close>

definition plainObject :: "(jstring \<times> jsval) list \<Rightarrow> jsval" where
  \<comment> \<open>an object literal, or an object that \<open>JSON.parse\<close> built\<close>
  "plainObject fs = JObj fs (ToStringReturns (lit ''[object Object]''))"

definition logMessage :: "jstring \<Rightarrow> jsval" where
  \<comment> \<open>an entry of the message history with the given content\<close>
  "logMessage c = plainObject [(lit ''message'', JStr c)]"

definition messageContent :: "jsval \<Rightarrow> jstring option" where
  \<comment> \<open>the content of an entry of the message history: the entry is an object whose
     \<open>message\<close> is a string\<close>
  "messageContent m =
     (case m of
        JObj fs ts \<Rightarrow> (case getProp m (lit ''message'') of JStr c \<Rightarrow> Some c | _ \<Rightarrow> None)
      | _ \<Rightarrow> None)"

definition constTools :: "invoke \<Rightarrow> invoke \<Rightarrow> invoke \<Rightarrow> tools" where
  \<comment> \<open>a collaborator that answers every call of a tool in the same way\<close>
  "constTools c s g =
     \<lparr> createTopic = (\<lambda>memo. c), submitMessage = (\<lambda>topicId message. s),
       getMessages = (\<lambda>topicId. g) \<rparr>"

definition thresholdCorrect :: "tallyResult \<Rightarrow> int \<Rightarrow> bool" where
  \<comment> \<open>\<open>isApproved == (approvalCount >= threshold)\<close>\<close>
  "thresholdCorrect r threshold = (tr_isApproved r = (threshold \<le> int (tr_approvals r)))"


definition scenarioMessages :: "jsval list" where
  \<comment> \<open>the message history of the scenario of the specification\<close>
  "scenarioMessages =
     [logMessage (lit ''Proposal: Buy gear'' @ nl @ lit ''Approvers: a,b,c'' @ nl @ lit ''Threshold: 2''),
      logMessage (lit ''APPROVE:a''), logMessage (lit ''APPROVE:b''),
      logMessage (lit ''APPROVE:a'')]"

definition isProposalMessage :: "jsval \<Rightarrow> bool" where
  \<comment> \<open>a message of the history whose content starts with \<open>Proposal:\<close>\<close>
  "isProposalMessage m =
     (case messageContent m of Some c \<Rightarrow> startsWith c (lit ''Proposal:'') | None \<Rightarrow> False)"

definition decodeDescription :: "jstring \<Rightarrow> jstring" where
  \<comment> \<open>the description that the tally reads from a log whose message has this content\<close>
  "decodeDescription content =
     proposalDescription (findProposal [] 0 [logMessage content] detailsNotFound)"

definition messageContents :: "jsval list \<Rightarrow> jstring list" where
  \<comment> \<open>the contents of the entries that have one, in order\<close>
  "messageContents messages = List.map_filter messageContent messages"

definition normalizeMessages :: "(jstring \<Rightarrow> jsval option) \<Rightarrow> jsval \<Rightarrow> jstring list option" where
  \<comment> \<open>Following the specification: the ordered sequence of message contents of a read
     response, which (parsed first when it is a string) is an array, or an object whose
     \<open>messages\<close> is an array; otherwise the sequence is empty. \<open>None\<close> when the
     string does not parse.\<close>
  "normalizeMessages parse response =
     (case (case response of JStr s \<Rightarrow> parse s | _ \<Rightarrow> Some response) of
        None \<Rightarrow> None
      | Some v \<Rightarrow>
          Some (case v of
                  JArr xs \<Rightarrow> messageContents xs
                | JObj fs ts \<Rightarrow>
                    (case getProp v (lit ''messages'') of
                       JArr xs \<Rightarrow> messageContents xs
                     | _ \<Rightarrow> [])
                | _ \<Rightarrow> []))"

definition approvalIds :: "jstring list \<Rightarrow> jstring list \<Rightarrow> jstring list" where
  \<comment> \<open>Following the specification: the identifiers of the approval records among the
     contents (a content that starts with \<open>APPROVE:\<close>, the identifier its trimmed
     remainder) that are in the approvers list, each of them once\<close>
  "approvalIds approvers contents =
     remdups (filter (\<lambda>x. x \<in> set approvers)
        (map (\<lambda>c. trim (drop 8 c)) (filter (\<lambda>c. startsWith c (lit ''APPROVE:'')) contents)))"

definition tallyContents :: "jstring \<Rightarrow> jstring list \<Rightarrow> int \<Rightarrow> jstring list \<Rightarrow> tallyResult" where
  \<comment> \<open>Following the specification: the tally of a canonical sequence of message
     contents. The count is the number of approving identifiers, the proposal record is the
     first content that starts with \<open>Proposal:\<close>, and the report is rendered from both.\<close>
  "tallyContents topicId approvers threshold contents =
     (let ids = approvalIds approvers contents;
          d = (case find (\<lambda>c. startsWith c (lit ''Proposal:'')) contents of
                 Some c \<Rightarrow> readProposal approvers threshold c detailsNotFound
               | None \<Rightarrow> detailsNotFound)
      in \<lparr> tr_status = StatusSuccess,
           tr_approvals = length ids,
           tr_isApproved = (threshold \<le> int (length ids)),
           tr_message =
             (if threshold \<le> int (length ids)
              then approvedHead topicId (length ids) d
                   @ concat (map (approverLine ids) (sort (foundApproversList d)))
                   @ approvedTail topicId
              else pendingMessage (length ids) threshold) \<rparr>)"

section \<open>A fragment of \<open>JSON.parse\<close>\<close>

text \<open>
  The operations take \<open>JSON.parse\<close> as a parameter, and what is proved of them holds
  for every such function. The parser below instantiates the parameter where a text is
  parsed by computation: it reads objects, arrays, strings with their escapes, the three
  literals and short integers, and agrees with \<open>JSON.parse\<close> on every text it accepts
  (numbers with a fraction or an exponent, and long ones, are outside the fragment).
  The fuel bounds the number of nested and successive values; the parser runs with one
  more than the length of the text.
\<close>

definition isJsonSpace :: "int \<Rightarrow> bool" where
  "isJsonSpace c = (c = 32 \<or> c = 9 \<or> c = 10 \<or> c = 13)"

definition skipWs :: "jstring \<Rightarrow> jstring" where
  "skipWs s = dropWhile isJsonSpace s"

definition hexDigit :: "int \<Rightarrow> int option" where
  "hexDigit c =
     (if 48 \<le> c \<and> c \<le> 57 then Some (c - 48)
      else if 65 \<le> c \<and> c \<le> 70 then Some (c - 55)
      else if 97 \<le> c \<and> c \<le> 102 then Some (c - 87)
      else None)"

definition hex4 :: "jstring \<Rightarrow> int option" where
  "hex4 s =
     (case map hexDigit s of
        [Some a, Some b, Some c, Some d] \<Rightarrow> Some (((a * 16 + b) * 16 + c) * 16 + d)
      | _ \<Rightarrow> None)"

definition simpleEscape :: "int \<Rightarrow> int option" where
  "simpleEscape e =
     (if e = 34 \<or> e = 92 \<or> e = 47 then Some e
      else if e = 98 then Some 8
      else if e = 102 then Some 12
      else if e = 110 then Some 10
      else if e = 114 then Some 13
      else if e = 116 then Some 9
      else None)"

fun parseStringBody :: "jstring \<Rightarrow> jstring \<Rightarrow> (jstring \<times> jstring) option" where
  "parseStringBody [] acc = None"
| "parseStringBody (c # cs) acc =
     (if c = 34 then Some (rev acc, cs)
      else if c = 92 then
        (case cs of
           [] \<Rightarrow> None
         | e # es \<Rightarrow>
             if e = 117 then
               (case hex4 (take 4 es) of
                  Some u \<Rightarrow> parseStringBody (drop 4 es) (u # acc)
                | None \<Rightarrow> None)
             else
               (case simpleEscape e of
                  Some x \<Rightarrow> parseStringBody es (x # acc)
                | None \<Rightarrow> None))
      else if c < 32 then None
      else parseStringBody cs (c # acc))"

definition isDigit :: "int \<Rightarrow> bool" where
  "isDigit c = (48 \<le> c \<and> c \<le> 57)"

definition parseInteger :: "jstring \<Rightarrow> (jsval \<times> jstring) option" where
  \<comment> \<open>an integer literal of at most 15 digits, which \<open>String\<close> prints back digit by
     digit (\<open>-0\<close> as \<open>0\<close>)\<close>
  "parseInteger s =
     (let negative = (take 1 s = [45]);
          body = (if negative then drop 1 s else s);
          digits = takeWhile isDigit body;
          rest = dropWhile isDigit body
      in if digits = [] \<or> 15 < length digits \<or> (1 < length digits \<and> take 1 digits = [48])
            \<or> take 1 rest = [46] \<or> take 1 rest = [101] \<or> take 1 rest = [69]
         then None
         else Some (JNum (if negative \<and> digits \<noteq> [48] then 45 # digits else digits), rest))"

definition parsedObject :: "(jstring \<times> jsval) list \<Rightarrow> jsval" where
  \<comment> \<open>the object of a JSON text: a member named \<open>toString\<close> hides the inherited
     method, and no JSON value is a function\<close>
  "parsedObject fs =
     (if lit ''toString'' \<in> set (map fst fs) then JObj fs ToStringMissing else plainObject fs)"

fun parseValue :: "nat \<Rightarrow> jstring \<Rightarrow> (jsval \<times> jstring) option"
  and parseElements :: "nat \<Rightarrow> jstring \<Rightarrow> jsval list \<Rightarrow> (jsval list \<times> jstring) option"
  and parseMembers ::
    "nat \<Rightarrow> jstring \<Rightarrow> (jstring \<times> jsval) list \<Rightarrow> ((jstring \<times> jsval) list \<times> jstring) option"
where
  "parseValue 0 s = None"
| "parseValue (Suc n) s =
     (case skipWs s of
        [] \<Rightarrow> None
      | c # cs \<Rightarrow>
          if c = 34 then map_option (\<lambda>(x, r). (JStr x, r)) (parseStringBody cs [])
          else if c = 91 then
            (if take 1 (skipWs cs) = [93] then Some (JArr [], drop 1 (skipWs cs))
             else map_option (\<lambda>(xs, r). (JArr xs, r)) (parseElements n cs []))
          else if c = 123 then
            (if take 1 (skipWs cs) = [125] then Some (parsedObject [], drop 1 (skipWs cs))
             else map_option (\<lambda>(fs, r). (parsedObject fs, r)) (parseMembers n cs []))
          else if startsWith (c # cs) (lit ''true'') then Some (JBool True, drop 4 (c # cs))
          else if startsWith (c # cs) (lit ''false'') then Some (JBool False, drop 5 (c # cs))
          else if startsWith (c # cs) (lit ''null'') then Some (JNull, drop 4 (c # cs))
          else parseInteger (c # cs))"
| "parseElements 0 s acc = None"
| "parseElements (Suc n) s acc =
     (case parseValue n s of
        None \<Rightarrow> None
      | Some (v, r) \<Rightarrow>
          if take 1 (skipWs r) = [44] then parseElements n (drop 1 (skipWs r)) (acc @ [v])
          else if take 1 (skipWs r) = [93] then Some (acc @ [v], drop 1 (skipWs r))
          else None)"
| "parseMembers 0 s acc = None"
| "parseMembers (Suc n) s acc =
     (if take 1 (skipWs s) = [34] then
        (case parseStringBody (drop 1 (skipWs s)) [] of
           None \<Rightarrow> None
         | Some (k, r) \<Rightarrow>
             if take 1 (skipWs r) = [58] then
               (case parseValue n (drop 1 (skipWs r)) of
                  None \<Rightarrow> None
                | Some (v, r') \<Rightarrow>
                    if take 1 (skipWs r') = [44]
                    then parseMembers n (drop 1 (skipWs r')) (acc @ [(k, v)])
                    else if take 1 (skipWs r') = [125]
                    then Some (acc @ [(k, v)], drop 1 (skipWs r'))
                    else None)
             else None)
      else None)"

definition jsonParse :: "jstring \<Rightarrow> jsval option" where
  \<comment> \<open>the whole text is one value, with white space around it\<close>
  "jsonParse s =
     (case parseValue (Suc (length s)) s of
        Some (v, r) \<Rightarrow> if skipWs r = [] then Some v else None
      | None \<Rightarrow> None)"

definition scenarioResponseText :: jstring where
  \<comment> \<open>the text \<open>{"messages":[{"message":"APPROVE:a"}]}\<close>; 34 is the double quote\<close>
  "scenarioResponseText =
     lit ''{'' @ [34] @ lit ''messages'' @ [34] @ lit '':[{'' @ [34] @ lit ''message'' @ [34]
     @ lit '':'' @ [34] @ lit ''APPROVE:a'' @ [34] @ lit ''}]}''"

definition topTopicId :: "jsval \<Rightarrow> jsval" where
  \<comment> \<open>the identifier at the top level of a create response\<close>
  "topTopicId parsedResponse = getProp parsedResponse (lit ''topicId'')"

definition nestedTopicId :: "jsval \<Rightarrow> jsval" where
  \<comment> \<open>the identifier nested under \<open>receipt\<close>, when that is an object\<close>
  "nestedTopicId parsedResponse =
     (let receipt = getProp parsedResponse (lit ''receipt'')
      in if truthy receipt \<and> typeof receipt = TObject then getProp receipt (lit ''topicId'')
         else JUndefined)"

definition isStringifiable :: "jsval \<Rightarrow> bool" where
  \<comment> \<open>an object-typed identifier that exposes a stringification\<close>
  "isStringifiable v = (truthy v \<and> typeof v = TObject \<and> hasToString v)"

definition dottedText :: "jsval \<Rightarrow> jstring option" where
  \<comment> \<open>the stringification of such an identifier, when it contains the separator\<close>
  "dottedText v =
     (if isStringifiable v then
        (case callToString v of
           Some s \<Rightarrow> if includesStr s (lit ''.'') then Some s else None
         | None \<Rightarrow> None)
      else None)"

definition claimedTopicId :: "jsval \<Rightarrow> jstring option" where
  \<comment> \<open>Following the specification: the four shapes tried in order, the first match
     winning, where shapes 3 and 4 match an object-typed identifier whose stringification
     contains the separator\<close>
  "claimedTopicId parsedResponse =
     (case nestedTopicId parsedResponse of
        JStr s \<Rightarrow> Some s
      | _ \<Rightarrow>
          (case topTopicId parsedResponse of
             JStr s \<Rightarrow> Some s
           | _ \<Rightarrow>
               (case dottedText (topTopicId parsedResponse) of
                  Some s \<Rightarrow> Some s
                | None \<Rightarrow> dottedText (nestedTopicId parsedResponse))))"

definition nonEmpty :: "jstring \<Rightarrow> jstring option" where
  \<comment> \<open>the check \<open>!topicId\<close> on a string\<close>
  "nonEmpty s = (if s = [] then None else Some s)"

definition normalizedTopicId :: "jsval \<Rightarrow> jstring option" where
  \<comment> \<open>The specification as amended: shapes 3 and 4 are chosen by the identifier being an
     object that exposes a stringification, the separator is checked on the chosen one
     only, and an empty string found by shape 1 or 2 is no identifier\<close>
  "normalizedTopicId parsedResponse =
     (case nestedTopicId parsedResponse of
        JStr s \<Rightarrow> nonEmpty s
      | _ \<Rightarrow>
          (case topTopicId parsedResponse of
             JStr s \<Rightarrow> nonEmpty s
           | _ \<Rightarrow>
               if isStringifiable (topTopicId parsedResponse)
               then dottedText (topTopicId parsedResponse)
               else dottedText (nestedTopicId parsedResponse)))"

definition sdkTopicId :: "jstring \<Rightarrow> jsval" where
  \<comment> \<open>an SDK \<open>TopicId\<close> object: its \<open>toString\<close> gives \<open>shard.realm.num\<close>\<close>
  "sdkTopicId identifier = JObj [] (ToStringReturns identifier)"

definition wrappedResponseText :: jstring where
  \<comment> \<open>the text \<open>{"topicId":"0.0.123456"}\<close>\<close>
  "wrappedResponseText =
     lit ''{'' @ [34] @ lit ''topicId'' @ [34] @ lit '':'' @ [34] @ lit ''0.0.123456'' @ [34]
     @ lit ''}''"

section \<open>Entries of the message history\<close>

lemma hasMessageText_iff:
  "hasMessageText m \<longleftrightarrow> (\<exists>c. messageContent m = Some c)"
proof (cases m)
  case (JObj fs ts)
  then show ?thesis
    by (cases "getProp (JObj fs ts) (lit ''message'')")
       (simp_all add: hasMessageText_def messageContent_def)
qed (simp_all add: hasMessageText_def messageContent_def)

lemma messageText_eq: "messageContent m = Some c \<Longrightarrow> messageText m = c"
  by (auto simp: messageText_def messageContent_def split: jsval.splits)

lemma messageContent_logMessage: "messageContent (logMessage c) = Some c"
  by (simp add: messageContent_def logMessage_def plainObject_def)

lemma length_APPROVE: "length (lit ''APPROVE:'') = 8"
  by (simp add: lit_def)

section \<open>The set of valid approvals\<close>

lemma set_setAdd: "set (setAdd va x) = insert x (set va)"
  by (auto simp: setAdd_def)

lemma distinct_setAdd: "distinct va \<Longrightarrow> distinct (setAdd va x)"
  by (simp add: setAdd_def)

lemma set_countStep:
  "set (countStep approvers va m) =
     set va \<union> {x. x \<in> set approvers \<and>
                  (\<exists>c. messageContent m = Some c \<and> startsWith c (lit ''APPROVE:'')
                       \<and> trim (drop 8 c) = x)}"
proof (cases "messageContent m")
  case None
  then have "\<not> hasMessageText m" by (simp add: hasMessageText_iff)
  with None show ?thesis by (simp add: countStep_def)
next
  case (Some c)
  then have "hasMessageText m" "messageText m = c"
    by (simp_all add: hasMessageText_iff messageText_eq)
  with Some show ?thesis
    by (auto simp: countStep_def Let_def set_setAdd length_APPROVE)
qed

lemma distinct_countStep: "distinct va \<Longrightarrow> distinct (countStep approvers va m)"
  by (simp add: countStep_def Let_def distinct_setAdd)

lemma set_countApprovals:
  "set (countApprovals approvers ms va) =
     set va \<union> {x. x \<in> set approvers \<and>
                  (\<exists>m c. m \<in> set ms \<and> messageContent m = Some c
                       \<and> startsWith c (lit ''APPROVE:'') \<and> trim (drop 8 c) = x)}"
proof (induction ms arbitrary: va)
  case Nil
  show ?case by simp
next
  case (Cons m ms)
  show ?case
    unfolding countApprovals.simps Cons.IH set_countStep by auto
qed

lemma distinct_countApprovals:
  "distinct va \<Longrightarrow> distinct (countApprovals approvers ms va)"
  by (induction ms arbitrary: va) (simp_all add: distinct_countStep)

lemma length_countApprovals:
  "length (countApprovals approvers ms []) =
     card {x. x \<in> set approvers \<and>
              (\<exists>m c. m \<in> set ms \<and> messageContent m = Some c
                   \<and> startsWith c (lit ''APPROVE:'') \<and> trim (drop 8 c) = x)}"
proof -
  have "distinct (countApprovals approvers ms [])"
    by (rule distinct_countApprovals) simp
  then have "length (countApprovals approvers ms []) = card (set (countApprovals approvers ms []))"
    by (simp add: distinct_card)
  then show ?thesis by (simp add: set_countApprovals)
qed

lemma countApprovals_append:
  "countApprovals approvers (ms @ es) va =
     countApprovals approvers es (countApprovals approvers ms va)"
  by (induction ms arbitrary: va) simp_all

lemma length_countApprovals_mono:
  "length (countApprovals approvers ms []) \<le> length (countApprovals approvers (ms @ es) [])"
proof -
  let ?a = "countApprovals approvers ms []"
  let ?b = "countApprovals approvers (ms @ es) []"
  have d: "distinct ?a" "distinct ?b"
    by (simp_all add: distinct_countApprovals)
  have "set ?a \<subseteq> set ?b"
    unfolding countApprovals_append by (subst (2) set_countApprovals) blast
  then have "card (set ?a) \<le> card (set ?b)"
    by (rule card_mono[rotated]) simp
  with d show ?thesis by (simp add: distinct_card)
qed

section \<open>The tally of an array of messages\<close>

lemma tallyApprovals_array:
  "getMessages t topicId = Returns (JArr messages) \<Longrightarrow>
   tallyApprovals parse t topicId approvers threshold =
     Inr (tallyMessages topicId approvers threshold messages)"
  by (simp add: tallyApprovals_def parseMessagesResponse_def extractMessages_def)

lemma tallyMessages_status:
  "tr_status (tallyMessages topicId approvers threshold messages) = StatusSuccess"
  by (simp add: tallyMessages_def Let_def)

lemma tallyMessages_approvals:
  "tr_approvals (tallyMessages topicId approvers threshold messages)
     = length (countApprovals approvers messages [])"
  by (simp add: tallyMessages_def Let_def)

lemma tallyMessages_isApproved:
  "tr_isApproved (tallyMessages topicId approvers threshold messages)
     = (threshold \<le> int (length (countApprovals approvers messages [])))"
  by (simp add: tallyMessages_def Let_def)

text \<open>
  C1. For every array of log messages that the read returns, every list of approvers and
  every threshold, the tally succeeds and its approval count is the number of distinct
  identifiers \<open>x\<close> of the approvers list for which some message content starts with
  \<open>APPROVE:\<close> and has \<open>x\<close> as its trimmed remainder. An identifier that approves
  several times is one element of that set, and an approval by an identifier outside the
  list is no element of it.
\<close>

theorem tally_counts_distinct_valid_approvers:
  assumes "getMessages t topicId = Returns (JArr messages)"
  shows "\<exists>r. tallyApprovals parse t topicId approvers threshold = Inr r
           \<and> tr_status r = StatusSuccess
           \<and> tr_approvals r =
               card {x. x \<in> set approvers \<and>
                        (\<exists>m c. m \<in> set messages \<and> messageContent m = Some c
                             \<and> startsWith c (lit ''APPROVE:'') \<and> trim (drop 8 c) = x)}"
  using assms
  by (simp add: tallyApprovals_array tallyMessages_status tallyMessages_approvals
        length_countApprovals)

theorem tally_counts_distinct_valid_approvers_witness:
  "tr_approvals (projr (tallyApprovals (\<lambda>s. None)
        (constTools (Returns JUndefined) (Returns JUndefined)
           (Returns (JArr (scenarioMessages @ [logMessage (lit ''APPROVE: z ''), JNull, JStr (lit ''APPROVE:c'')]))))
        (lit ''0.0.5'') [lit ''a'', lit ''b'', lit ''c''] 2)) = 2
   \<and> card {x. x \<in> set [lit ''a'', lit ''b'', lit ''c''] \<and>
              (\<exists>m c. m \<in> set (scenarioMessages @ [logMessage (lit ''APPROVE: z ''), JNull, JStr (lit ''APPROVE:c'')])
                   \<and> messageContent m = Some c
                   \<and> startsWith c (lit ''APPROVE:'') \<and> trim (drop 8 c) = x)} = 2"
proof -
  let ?ms = "scenarioMessages @ [logMessage (lit ''APPROVE: z ''), JNull, JStr (lit ''APPROVE:c'')]"
  let ?t = "constTools (Returns JUndefined) (Returns JUndefined) (Returns (JArr ?ms))"
  have g: "getMessages ?t (lit ''0.0.5'') = Returns (JArr ?ms)"
    by (simp add: constTools_def)
  have v: "tr_approvals (projr (tallyApprovals (\<lambda>s. None) ?t (lit ''0.0.5'')
              [lit ''a'', lit ''b'', lit ''c''] 2)) = 2"
    by code_simp
  from tally_counts_distinct_valid_approvers[OF g, of "\<lambda>s. None" "[lit ''a'', lit ''b'', lit ''c'']" 2] v
  show ?thesis by auto
qed

section \<open>Results of the public operations\<close>

lemma errorMessage_newError: "errorMessage (newError m) = Some m"
  by (simp add: errorMessage_def newError_def)

lemma errorMessage_stringifyUndefinedError: "\<exists>m. errorMessage stringifyUndefinedError = Some m"
  by (simp add: errorMessage_def stringifyUndefinedError_def)

lemma errorMessage_extractionError: "\<exists>m. errorMessage (extractionError v) = Some m"
  by (simp add: extractionError_def errorMessage_newError)

lemma tallyApprovals_parsed:
  "getMessages t topicId = Returns resp \<Longrightarrow> parseMessagesResponse parse resp = Inr v \<Longrightarrow>
   tallyApprovals parse t topicId approvers threshold =
     Inr (tallyMessages topicId approvers threshold (extractMessages v))"
  by (simp add: tallyApprovals_def)

lemma tallyApprovals_thrown:
  "getMessages t topicId = Throws e \<Longrightarrow>
   tallyApprovals parse t topicId approvers threshold =
     (case errorMessage e of
        None \<Rightarrow> Inl HandlerFault
      | Some m \<Rightarrow> Inr \<lparr> tr_status = StatusError, tr_approvals = 0, tr_isApproved = False,
                       tr_message = lit ''Failed to tally approvals: '' @ m \<rparr>)"
  by (simp add: tallyApprovals_def)

lemma tallyApprovals_unparsable:
  "getMessages t topicId = Returns resp \<Longrightarrow> parseMessagesResponse parse resp = Inl e \<Longrightarrow>
   tallyApprovals parse t topicId approvers threshold =
     Inr \<lparr> tr_status = StatusError, tr_approvals = 0, tr_isApproved = False,
           tr_message = lit ''Failed to tally approvals: ''
              @ lit ''get_topic_messages_query_tool returned an unparsable string.'' \<rparr>"
  by (auto simp: tallyApprovals_def parseMessagesResponse_def errorMessage_newError
        split: jsval.splits option.splits)

lemma tallyApprovals_result:
  assumes "tallyApprovals parse t topicId approvers threshold = Inr r"
  shows "(\<exists>messages. r = tallyMessages topicId approvers threshold messages)
         \<or> (tr_status r = StatusError \<and> tr_approvals r = 0 \<and> \<not> tr_isApproved r
             \<and> (\<exists>m. tr_message r = lit ''Failed to tally approvals: '' @ m))"
proof (cases "getMessages t topicId")
  case (Throws e)
  with assms show ?thesis
    by (auto simp: tallyApprovals_thrown split: option.splits)
next
  case (Returns resp)
  show ?thesis
  proof (cases "parseMessagesResponse parse resp")
    case (Inl e)
    with Returns assms show ?thesis
      by (auto simp: tallyApprovals_unparsable)
  next
    case (Inr v)
    with Returns assms show ?thesis
      by (auto simp: tallyApprovals_parsed)
  qed
qed

lemma thresholdCorrect_tallyMessages:
  "thresholdCorrect (tallyMessages topicId approvers threshold messages) threshold"
  by (simp add: thresholdCorrect_def tallyMessages_isApproved tallyMessages_approvals)

text \<open>
  C2 (amended). Whenever \<open>tallyApprovals\<close> returns a success result, and for every
  result when the threshold is at least 1, \<open>isApproved\<close> equals
  \<open>approvalCount >= threshold\<close>; this covers threshold 1, the number of approvers and
  0 (where a success result is approved). An error result carries count 0 and
  \<open>isApproved = false\<close>. For an empty message history the count is 0 and
  \<open>isApproved\<close> is \<open>threshold <= 0\<close>: false for every threshold from 1 on, true
  for threshold 0. As stated for all inputs the claim fails: when the read fails and the
  threshold is 0, the error result has \<open>isApproved = false\<close> although \<open>0 >= 0\<close>.
\<close>

theorem isApproved_is_threshold_comparison:
  "(tallyApprovals parse t topicId approvers threshold = Inr r
      \<and> (tr_status r = StatusSuccess \<or> 1 \<le> threshold)
      \<longrightarrow> thresholdCorrect r threshold)
   \<and> (tallyApprovals parse t topicId approvers threshold = Inr r \<and> tr_status r = StatusError
      \<longrightarrow> tr_approvals r = 0 \<and> \<not> tr_isApproved r)
   \<and> (getMessages t topicId = Returns (JArr [])
      \<longrightarrow> (\<exists>r0. tallyApprovals parse t topicId approvers threshold = Inr r0
             \<and> tr_status r0 = StatusSuccess \<and> tr_approvals r0 = 0
             \<and> tr_isApproved r0 = (threshold \<le> 0)))"
proof -
  have first: "thresholdCorrect r threshold"
    if a: "tallyApprovals parse t topicId approvers threshold = Inr r"
      and b: "tr_status r = StatusSuccess \<or> 1 \<le> threshold"
  proof -
    from tallyApprovals_result[OF a]
    consider (tallied) messages where "r = tallyMessages topicId approvers threshold messages"
      | (failed) "tr_status r = StatusError" "tr_approvals r = 0" "\<not> tr_isApproved r"
      by auto
    then show ?thesis
    proof cases
      case tallied
      then show ?thesis by (simp add: thresholdCorrect_tallyMessages)
    next
      case failed
      with b show ?thesis by (simp add: thresholdCorrect_def)
    qed
  qed
  have second: "tr_approvals r = 0 \<and> \<not> tr_isApproved r"
    if a: "tallyApprovals parse t topicId approvers threshold = Inr r"
      and b: "tr_status r = StatusError"
    using tallyApprovals_result[OF a] b by (auto simp: tallyMessages_status)
  have third: "\<exists>r0. tallyApprovals parse t topicId approvers threshold = Inr r0
             \<and> tr_status r0 = StatusSuccess \<and> tr_approvals r0 = 0
             \<and> tr_isApproved r0 = (threshold \<le> 0)"
    if "getMessages t topicId = Returns (JArr [])"
    using that
    by (simp add: tallyApprovals_array tallyMessages_status tallyMessages_approvals
          tallyMessages_isApproved)
  from first second third show ?thesis by blast
qed

theorem isApproved_is_threshold_comparison_witness:
  "tallyApprovals (\<lambda>s. None)
      (constTools (Returns JUndefined) (Returns JUndefined) (Returns (JArr [])))
      (lit ''0.0.5'') [lit ''a'', lit ''b''] 0
     = Inr \<lparr> tr_status = StatusSuccess, tr_approvals = 0, tr_isApproved = True,
             tr_message = tr_message (tallyMessages (lit ''0.0.5'') [lit ''a'', lit ''b''] 0 []) \<rparr>
   \<and> thresholdCorrect (projr (tallyApprovals (\<lambda>s. None)
      (constTools (Returns JUndefined) (Returns JUndefined) (Returns (JArr [])))
      (lit ''0.0.5'') [lit ''a'', lit ''b''] 0)) 0
   \<and> tr_isApproved (projr (tallyApprovals (\<lambda>s. None)
      (constTools (Returns JUndefined) (Returns JUndefined) (Returns (JArr [])))
      (lit ''0.0.5'') [lit ''a'', lit ''b''] 1)) = False"
proof -
  let ?t = "constTools (Returns JUndefined) (Returns JUndefined) (Returns (JArr []))"
  let ?r = "\<lparr> tr_status = StatusSuccess, tr_approvals = 0, tr_isApproved = True,
             tr_message = tr_message (tallyMessages (lit ''0.0.5'') [lit ''a'', lit ''b''] 0 []) \<rparr>"
  have e: "tallyApprovals (\<lambda>s. None) ?t (lit ''0.0.5'') [lit ''a'', lit ''b''] 0 = Inr ?r"
    by (simp add: tallyApprovals_def constTools_def parseMessagesResponse_def
          extractMessages_def tallyMessages_def)
  have s: "tr_status ?r = StatusSuccess \<or> (1::int) \<le> 0"
    by simp
  from isApproved_is_threshold_comparison[of "\<lambda>s. None" ?t "lit ''0.0.5''" "[lit ''a'', lit ''b'']" 0 ?r]
    e s
  have c: "thresholdCorrect ?r 0" by blast
  have f: "tr_isApproved (projr (tallyApprovals (\<lambda>s. None) ?t (lit ''0.0.5'')
              [lit ''a'', lit ''b''] 1)) = False"
    by code_simp
  from e c f show ?thesis by simp
qed

theorem isApproved_error_result_counterexample:
  "tallyApprovals (\<lambda>s. None)
      (constTools (Returns JUndefined) (Returns JUndefined)
         (Throws (newError (lit ''unavailable''))))
      (lit ''0.0.5'') [lit ''a''] 0
     = Inr \<lparr> tr_status = StatusError, tr_approvals = 0, tr_isApproved = False,
             tr_message = lit ''Failed to tally approvals: unavailable'' \<rparr>
   \<and> \<not> thresholdCorrect (projr (tallyApprovals (\<lambda>s. None)
      (constTools (Returns JUndefined) (Returns JUndefined)
         (Throws (newError (lit ''unavailable''))))
      (lit ''0.0.5'') [lit ''a''] 0)) 0
   \<and> tr_isApproved (projr (tallyApprovals (\<lambda>s. None)
      (constTools (Returns JUndefined) (Returns JUndefined) (Returns (JArr [])))
      (lit ''0.0.5'') [lit ''a''] 0))"
  by code_simp





text \<open>
  C10. When the read returns an object, or a string that \<open>JSON.parse\<close> turns into an
  object, whose \<open>messages\<close> is not an array, \<open>tallyApprovals\<close> does not fail: it
  returns a success result with count 0 and \<open>isApproved = (0 >= threshold)\<close>.
\<close>

theorem unreadable_messages_tally_as_empty:
  assumes "getMessages t topicId = Returns resp"
    and "resp = JObj fs ts \<or> (\<exists>s. resp = JStr s \<and> parse s = Some (JObj fs ts))"
    and "\<not> isArray (getProp (JObj fs ts) (lit ''messages''))"
  shows "\<exists>r. tallyApprovals parse t topicId approvers threshold = Inr r
           \<and> tr_status r = StatusSuccess \<and> tr_approvals r = 0
           \<and> tr_isApproved r = (threshold \<le> 0)"
proof -
  from assms(2) have "parseMessagesResponse parse resp = Inr (JObj fs ts)"
    by (auto simp: parseMessagesResponse_def)
  moreover from assms(3) have "extractMessages (JObj fs ts) = []"
    by (simp add: extractMessages_def)
  ultimately show ?thesis
    using assms(1)
    by (simp add: tallyApprovals_parsed tallyMessages_status tallyMessages_approvals
          tallyMessages_isApproved)
qed


theorem unreadable_messages_tally_as_empty_witness:
  "tallyApprovals (\<lambda>s. None)
      (constTools (Returns JUndefined) (Returns JUndefined)
         (Returns (plainObject [(lit ''topicId'', JStr (lit ''0.0.5'')),
                                (lit ''messages'', JStr (lit ''none''))])))
      (lit ''0.0.5'') [lit ''a'', lit ''b''] 1
     = Inr \<lparr> tr_status = StatusSuccess, tr_approvals = 0, tr_isApproved = False,
             tr_message = lit ''Current tally: 0/1 approvals. Need 1 more approval(s).'' \<rparr>
   \<and> (\<exists>r. tallyApprovals (\<lambda>s. None)
      (constTools (Returns JUndefined) (Returns JUndefined)
         (Returns (plainObject [(lit ''topicId'', JStr (lit ''0.0.5'')),
                                (lit ''messages'', JStr (lit ''none''))])))
      (lit ''0.0.5'') [lit ''a'', lit ''b''] 1 = Inr r
        \<and> tr_status r = StatusSuccess \<and> tr_approvals r = 0
        \<and> tr_isApproved r = ((1::int) \<le> 0))"
proof -
  let ?fs = "[(lit ''topicId'', JStr (lit ''0.0.5'')), (lit ''messages'', JStr (lit ''none''))]"
  let ?t = "constTools (Returns JUndefined) (Returns JUndefined) (Returns (plainObject ?fs))"
  have g: "getMessages ?t (lit ''0.0.5'') = Returns (plainObject ?fs)"
    by (simp add: constTools_def)
  have o: "plainObject ?fs = JObj ?fs (ToStringReturns (lit ''[object Object]''))
           \<or> (\<exists>s. plainObject ?fs = JStr s
                \<and> (\<lambda>s. None) s = Some (JObj ?fs (ToStringReturns (lit ''[object Object]''))))"
    by (simp add: plainObject_def)
  have n: "\<not> isArray (getProp (JObj ?fs (ToStringReturns (lit ''[object Object]''))) (lit ''messages''))"
    by code_simp
  have v: "tallyApprovals (\<lambda>s. None) ?t (lit ''0.0.5'') [lit ''a'', lit ''b''] 1
     = Inr \<lparr> tr_status = StatusSuccess, tr_approvals = 0, tr_isApproved = False,
             tr_message = lit ''Current tally: 0/1 approvals. Need 1 more approval(s).'' \<rparr>"
    by code_simp
  from unreadable_messages_tally_as_empty[OF g o n, of "[lit ''a'', lit ''b'']" 1] v
  show ?thesis by blast
qed

text \<open>
  C4. The tally is monotonic in the message sequence: for a history \<open>messages\<close> and
  any extension of it (in particular one that adds valid approval messages), with the
  same approvers and threshold, the approval count of the extended history is at least
  that of the original one, and an approved tally stays approved.
\<close>

theorem tally_monotone_in_messages:
  assumes "getMessages t topicId = Returns (JArr messages)"
    and "getMessages t' topicId = Returns (JArr (messages @ extension))"
  shows "\<exists>r r'. tallyApprovals parse t topicId approvers threshold = Inr r
           \<and> tallyApprovals parse t' topicId approvers threshold = Inr r'
           \<and> tr_approvals r \<le> tr_approvals r'
           \<and> (tr_isApproved r \<longrightarrow> tr_isApproved r')"
proof -
  let ?r = "tallyMessages topicId approvers threshold messages"
  let ?r' = "tallyMessages topicId approvers threshold (messages @ extension)"
  have le: "tr_approvals ?r \<le> tr_approvals ?r'"
    by (simp add: tallyMessages_approvals length_countApprovals_mono)
  then have "tr_isApproved ?r \<longrightarrow> tr_isApproved ?r'"
    by (simp add: tallyMessages_isApproved tallyMessages_approvals)
  with le assms show ?thesis
    by (simp add: tallyApprovals_array)
qed

theorem tally_monotone_in_messages_witness:
  "tr_approvals (projr (tallyApprovals (\<lambda>s. None)
       (constTools (Returns JUndefined) (Returns JUndefined) (Returns (JArr scenarioMessages)))
       (lit ''0.0.5'') [lit ''a'', lit ''b'', lit ''c''] 3)) = 2
   \<and> tr_approvals (projr (tallyApprovals (\<lambda>s. None)
       (constTools (Returns JUndefined) (Returns JUndefined)
          (Returns (JArr (scenarioMessages @ [logMessage (lit ''APPROVE:c'')]))))
       (lit ''0.0.5'') [lit ''a'', lit ''b'', lit ''c''] 3)) = 3
   \<and> (\<exists>r r'. tallyApprovals (\<lambda>s. None)
          (constTools (Returns JUndefined) (Returns JUndefined) (Returns (JArr scenarioMessages)))
          (lit ''0.0.5'') [lit ''a'', lit ''b'', lit ''c''] 3 = Inr r
        \<and> tallyApprovals (\<lambda>s. None)
          (constTools (Returns JUndefined) (Returns JUndefined)
             (Returns (JArr (scenarioMessages @ [logMessage (lit ''APPROVE:c'')]))))
          (lit ''0.0.5'') [lit ''a'', lit ''b'', lit ''c''] 3 = Inr r'
        \<and> tr_approvals r \<le> tr_approvals r')"
proof -
  let ?t = "constTools (Returns JUndefined) (Returns JUndefined) (Returns (JArr scenarioMessages))"
  let ?t' = "constTools (Returns JUndefined) (Returns JUndefined)
          (Returns (JArr (scenarioMessages @ [logMessage (lit ''APPROVE:c'')])))"
  have g: "getMessages ?t (lit ''0.0.5'') = Returns (JArr scenarioMessages)"
    by (simp add: constTools_def)
  have g': "getMessages ?t' (lit ''0.0.5'')
      = Returns (JArr (scenarioMessages @ [logMessage (lit ''APPROVE:c'')]))"
    by (simp add: constTools_def)
  have v: "tr_approvals (projr (tallyApprovals (\<lambda>s. None) ?t (lit ''0.0.5'')
              [lit ''a'', lit ''b'', lit ''c''] 3)) = 2"
    by code_simp
  have v': "tr_approvals (projr (tallyApprovals (\<lambda>s. None) ?t' (lit ''0.0.5'')
              [lit ''a'', lit ''b'', lit ''c''] 3)) = 3"
    by code_simp
  from tally_monotone_in_messages[OF g g', of "\<lambda>s. None" "[lit ''a'', lit ''b'', lit ''c'']" 3]
  have "\<exists>r r'. tallyApprovals (\<lambda>s. None) ?t (lit ''0.0.5'') [lit ''a'', lit ''b'', lit ''c''] 3 = Inr r
        \<and> tallyApprovals (\<lambda>s. None) ?t' (lit ''0.0.5'') [lit ''a'', lit ''b'', lit ''c''] 3 = Inr r'
        \<and> tr_approvals r \<le> tr_approvals r'"
    by blast
  with v v' show ?thesis by blast
qed

section \<open>The record codec\<close>

lemma dropWhile_same_length:
  assumes "length (dropWhile P xs) = length xs"
  shows "dropWhile P xs = xs"
proof -
  have "length (takeWhile P xs @ dropWhile P xs) = length xs"
    by simp
  with assms have "takeWhile P xs = []"
    by (simp del: takeWhile_dropWhile_id)
  then have "takeWhile P xs @ dropWhile P xs = dropWhile P xs"
    by simp
  then show ?thesis by simp
qed

lemma trim_fixed_dropWhile:
  assumes "trim d = d"
  shows "dropWhile isWhiteSpace d = d"
proof -
  have "length (trim d) \<le> length (dropWhile isWhiteSpace d)"
    using length_dropWhile_le[of isWhiteSpace "rev (dropWhile isWhiteSpace d)"]
    by (simp add: trim_def)
  with assms have "length d \<le> length (dropWhile isWhiteSpace d)"
    by simp
  with length_dropWhile_le[of isWhiteSpace d]
  have "length (dropWhile isWhiteSpace d) = length d"
    by simp
  then show ?thesis by (rule dropWhile_same_length)
qed

lemma isWhiteSpace_32: "isWhiteSpace 32"
  by (simp add: isWhiteSpace_def)

lemma not_isLineTerminator_32: "\<not> isLineTerminator 32"
  by (simp add: isLineTerminator_def)

lemma length_Proposal: "length (lit ''Proposal:'') = 9"
  by (simp add: lit_def)

lemma lit_Proposal_space: "lit ''Proposal: '' = lit ''Proposal:'' @ [32]"
  by (simp add: lit_def)

lemma startsWith_append: "startsWith (p @ s) p"
  by (simp add: startsWith_def)

lemma trim_space: "trim [32] = []"
  by (simp add: trim_def isWhiteSpace_32)

lemma descMatch_encoded:
  assumes t: "trim d = d" and l: "\<not> list_ex isLineTerminator d"
  shows "map_option trim (descMatch (lit ''Proposal: '' @ d)) = Some d"
proof (cases d)
  case Nil
  then show ?thesis
    by (simp add: descMatch_def lit_Proposal_space startsWith_append length_Proposal
          isWhiteSpace_32 not_isLineTerminator_32 trim_space)
next
  case (Cons c cs)
  from trim_fixed_dropWhile[OF t] Cons length_dropWhile_le[of isWhiteSpace cs]
  have w: "\<not> isWhiteSpace c"
    by (auto split: if_splits)
  with Cons l t show ?thesis
    by (simp add: descMatch_def lit_Proposal_space startsWith_append length_Proposal
          isWhiteSpace_32)
qed

lemma firstLine_encoded:
  assumes "\<not> list_ex isLineTerminator d"
  shows "firstLine (initialMessage d approvers threshold) = lit ''Proposal: '' @ d"
proof -
  have a: "\<forall>c \<in> set (lit ''Proposal: ''). c \<noteq> 10"
    by (simp add: lit_def)
  from assms have b: "\<forall>c \<in> set d. c \<noteq> 10"
    by (auto simp: list_ex_iff isLineTerminator_def)
  have "takeWhile (\<lambda>c. c \<noteq> 10) ((lit ''Proposal: '' @ d) @ 10 # rest) = lit ''Proposal: '' @ d"
    for rest
  proof -
    have "takeWhile (\<lambda>c. c \<noteq> 10) ((lit ''Proposal: '' @ d) @ 10 # rest)
        = takeWhile (\<lambda>c. c \<noteq> 10) (lit ''Proposal: '' @ d)"
      by (rule takeWhile_tail) simp
    also from a b have "\<dots> = lit ''Proposal: '' @ d"
      by (simp add: takeWhile_eq_all_conv)
    finally show ?thesis .
  qed
  then show ?thesis
    by (simp add: firstLine_def initialMessage_def nl_def)
qed

lemma hasMessageText_logMessage: "hasMessageText (logMessage c)"
  by (simp add: hasMessageText_iff messageContent_logMessage)

lemma messageText_logMessage: "messageText (logMessage c) = c"
  by (simp add: messageText_eq messageContent_logMessage)

lemma startsWith_initialMessage:
  "startsWith (initialMessage d approvers threshold) (lit ''Proposal:'')"
  by (simp add: initialMessage_def lit_Proposal_space startsWith_append)

text \<open>
  C8 (amended). For every proposal description that has no line terminator and no white
  space at its start or end (the empty description included), encoding the proposal as
  the log message of \<open>createProposal\<close> and decoding the description as
  \<open>tallyApprovals\<close> does gives the description back, whatever the approvers and the
  threshold. As stated for every description the claim fails: the decoder reads the
  first line only and trims it, and a line with a carriage return is not matched at all.
\<close>

theorem description_round_trip:
  assumes "trim d = d" and "\<not> list_ex isLineTerminator d"
  shows "decodeDescription (initialMessage d approvers threshold) = d"
proof -
  from descMatch_encoded[OF assms]
  obtain g where "descMatch (lit ''Proposal: '' @ d) = Some g" "trim g = d"
    by auto
  then show ?thesis
    by (simp add: decodeDescription_def hasMessageText_logMessage messageText_logMessage
          startsWith_initialMessage readProposal_def firstLine_encoded[OF assms(2)])
qed

theorem description_round_trip_witness:
  "trim (lit ''Approve spending 1 HBAR for marketing'') = lit ''Approve spending 1 HBAR for marketing''
   \<and> \<not> list_ex isLineTerminator (lit ''Approve spending 1 HBAR for marketing'')
   \<and> decodeDescription (initialMessage (lit ''Approve spending 1 HBAR for marketing'')
          [lit ''0.0.1001'', lit ''0.0.1002''] 2)
       = lit ''Approve spending 1 HBAR for marketing''"
proof -
  have a: "trim (lit ''Approve spending 1 HBAR for marketing'') = lit ''Approve spending 1 HBAR for marketing''"
    by code_simp
  have b: "\<not> list_ex isLineTerminator (lit ''Approve spending 1 HBAR for marketing'')"
    by code_simp
  from description_round_trip[OF a b, of "[lit ''0.0.1001'', lit ''0.0.1002'']" 2] a b
  show ?thesis by simp
qed

theorem description_round_trip_counterexample:
  "decodeDescription (initialMessage (lit ''Buy gear'' @ nl @ lit ''before Friday'') [lit ''a''] 1)
     = lit ''Buy gear''
   \<and> decodeDescription (initialMessage (lit ''  Buy gear '') [lit ''a''] 1) = lit ''Buy gear''
   \<and> decodeDescription (initialMessage (lit ''Buy'' @ [13] @ lit ''gear'') [lit ''a''] 1)
     = lit ''Proposal details not found.''"
  by code_simp

section \<open>The proposal message of a history\<close>

lemma isProposalMessage_iff:
  "isProposalMessage m \<longleftrightarrow> hasMessageText m \<and> startsWith (messageText m) (lit ''Proposal:'')"
  by (auto simp: isProposalMessage_def hasMessageText_iff messageText_eq split: option.splits)

lemma findProposal_none:
  "\<forall>m \<in> set messages. \<not> isProposalMessage m \<Longrightarrow>
   findProposal approvers threshold messages d = d"
  by (induction messages) (auto simp: isProposalMessage_iff)

lemma findProposal_first:
  assumes "\<forall>m \<in> set before. \<not> isProposalMessage m"
    and "messageContent m = Some c" and "startsWith c (lit ''Proposal:'')"
  shows "findProposal approvers threshold (before @ m # after) d
           = readProposal approvers threshold c d"
  using assms(1)
proof (induction before)
  case Nil
  from assms(2,3) show ?case
    by (simp add: hasMessageText_iff messageText_eq)
next
  case (Cons b before)
  then show ?case by (auto simp: isProposalMessage_iff)
qed

lemma findProposal_some:
  assumes "\<exists>m \<in> set messages. isProposalMessage m"
  shows "foundApproversList (findProposal approvers threshold messages d) = approvers
       \<and> foundThreshold (findProposal approvers threshold messages d) = showInt threshold"
  using assms
  by (induction messages) (auto simp: isProposalMessage_iff readProposal_def)

text \<open>
  C9. In the approved report the proposal description comes from the first message, in
  log order, whose content starts with \<open>Proposal:\<close>: it is the trimmed text that
  follows the prefix on the first line of that content (the placeholder when that line
  has no such text), and the messages after it do not change the report. When no message
  starts with \<open>Proposal:\<close> the description is the placeholder and the tally still
  succeeds.
\<close>

theorem first_proposal_message_gives_description:
  "((\<forall>b \<in> set before. \<not> isProposalMessage b)
      \<and> messageContent m = Some c \<and> startsWith c (lit ''Proposal:'')
     \<longrightarrow> proposalDescription
           (findProposal approvers threshold (before @ m # after) detailsNotFound)
         = (case descMatch (firstLine c) of
              Some g \<Rightarrow> trim g
            | None \<Rightarrow> lit ''Proposal details not found.'')
       \<and> approvedMessage topicId approvers threshold (before @ m # after) validApprovals
         = approvedMessage topicId approvers threshold [m] validApprovals)
   \<and> ((\<forall>b \<in> set messages. \<not> isProposalMessage b)
     \<longrightarrow> proposalDescription (findProposal approvers threshold messages detailsNotFound)
         = lit ''Proposal details not found.''
       \<and> (\<forall>t parse. getMessages t topicId = Returns (JArr messages)
            \<longrightarrow> (\<exists>r. tallyApprovals parse t topicId approvers threshold = Inr r
                   \<and> tr_status r = StatusSuccess)))"
proof -
  have first: "proposalDescription
           (findProposal approvers threshold (before @ m # after) detailsNotFound)
         = (case descMatch (firstLine c) of
              Some g \<Rightarrow> trim g
            | None \<Rightarrow> lit ''Proposal details not found.'')
       \<and> approvedMessage topicId approvers threshold (before @ m # after) validApprovals
         = approvedMessage topicId approvers threshold [m] validApprovals"
    if a: "\<forall>b \<in> set before. \<not> isProposalMessage b"
      and b: "messageContent m = Some c" and c: "startsWith c (lit ''Proposal:'')"
  proof -
    have one: "findProposal approvers threshold (before @ m # after) detailsNotFound
        = readProposal approvers threshold c detailsNotFound"
      by (rule findProposal_first[OF a b c])
    have "\<forall>b \<in> set []. \<not> isProposalMessage b"
      by simp
    from findProposal_first[OF this b c, of approvers threshold "[]" detailsNotFound]
    have two: "findProposal approvers threshold [m] detailsNotFound
        = readProposal approvers threshold c detailsNotFound"
      by simp
    have "proposalDescription detailsNotFound = lit ''Proposal details not found.''"
      by (simp add: detailsNotFound_def)
    then have "proposalDescription (readProposal approvers threshold c detailsNotFound)
        = (case descMatch (firstLine c) of
             Some g \<Rightarrow> trim g
           | None \<Rightarrow> lit ''Proposal details not found.'')"
      by (simp add: readProposal_def split: option.splits)
    with one two show ?thesis
      by (simp add: approvedMessage_def)
  qed
  have second: "proposalDescription (findProposal approvers threshold messages detailsNotFound)
         = lit ''Proposal details not found.''
       \<and> (\<forall>t parse. getMessages t topicId = Returns (JArr messages)
            \<longrightarrow> (\<exists>r. tallyApprovals parse t topicId approvers threshold = Inr r
                   \<and> tr_status r = StatusSuccess))"
    if "\<forall>b \<in> set messages. \<not> isProposalMessage b"
    using that
    by (simp add: findProposal_none detailsNotFound_def tallyApprovals_array tallyMessages_status)
  from first second show ?thesis by blast
qed


theorem first_proposal_message_gives_description_witness:
  "proposalDescription
     (findProposal [lit ''a''] 1
        ([logMessage (lit ''APPROVE:a''), JNull]
         @ logMessage (lit ''Proposal:  Buy gear '' @ nl @ lit ''Approvers: a'')
         # [logMessage (lit ''Proposal: Sell gear'')])
        detailsNotFound) = lit ''Buy gear''
   \<and> proposalDescription
       (findProposal [lit ''a''] 1 [logMessage (lit ''APPROVE:a''), JNull] detailsNotFound)
     = lit ''Proposal details not found.''"
proof -
  let ?before = "[logMessage (lit ''APPROVE:a''), JNull]"
  let ?c = "lit ''Proposal:  Buy gear '' @ nl @ lit ''Approvers: a''"
  have a: "\<forall>b \<in> set ?before. \<not> isProposalMessage b"
    by code_simp
  have b: "messageContent (logMessage ?c) = Some ?c"
    by (rule messageContent_logMessage)
  have c: "startsWith ?c (lit ''Proposal:'')"
    by code_simp
  have d: "(case descMatch (firstLine ?c) of
              Some g \<Rightarrow> trim g
            | None \<Rightarrow> lit ''Proposal details not found.'') = lit ''Buy gear''"
    by code_simp
  from first_proposal_message_gives_description[of ?before "logMessage ?c" ?c "[lit ''a'']" 1
      "[logMessage (lit ''Proposal: Sell gear'')]" "lit ''0.0.5''" "[]" ?before]
    a b c d
  show ?thesis by simp
qed

section \<open>The contents of a history\<close>

lemma countStep_logMessage:
  "messageContent m = Some c \<Longrightarrow>
   countStep approvers va m = countStep approvers va (logMessage c)"
  by (simp add: countStep_def hasMessageText_iff messageText_eq messageContent_logMessage)

lemma countStep_skip:
  "messageContent m = None \<Longrightarrow> countStep approvers va m = va"
  by (simp add: countStep_def hasMessageText_iff)

lemma countApprovals_contents:
  "countApprovals approvers (map logMessage (messageContents ms)) va
     = countApprovals approvers ms va"
proof (induction ms arbitrary: va)
  case Nil
  show ?case by (simp add: messageContents_def map_filter_simps)
next
  case (Cons m ms)
  show ?case
  proof (cases "messageContent m")
    case None
    with Cons.IH[of va] show ?thesis
      by (simp add: messageContents_def map_filter_simps countStep_skip)
  next
    case (Some c)
    with Cons.IH[of "countStep approvers va (logMessage c)"] show ?thesis
      by (simp add: messageContents_def map_filter_simps countStep_logMessage)
  qed
qed

lemma findProposal_contents:
  "findProposal approvers threshold (map logMessage (messageContents ms)) d
     = findProposal approvers threshold ms d"
proof (induction ms)
  case Nil
  show ?case by (simp add: messageContents_def map_filter_simps)
next
  case (Cons m ms)
  show ?case
  proof (cases "messageContent m")
    case None
    then have "\<not> hasMessageText m"
      by (simp add: hasMessageText_iff)
    with None Cons.IH show ?thesis
      by (simp add: messageContents_def map_filter_simps)
  next
    case (Some c)
    then have "hasMessageText m" "messageText m = c"
      by (simp_all add: hasMessageText_iff messageText_eq)
    with Some Cons.IH show ?thesis
      by (simp add: messageContents_def map_filter_simps hasMessageText_logMessage
            messageText_logMessage)
  qed
qed

lemma approvedMessage_contents:
  "approvedMessage topicId approvers threshold (map logMessage (messageContents ms)) va
     = approvedMessage topicId approvers threshold ms va"
  by (simp add: approvedMessage_def findProposal_contents)

lemma tallyMessages_contents:
  "tallyMessages topicId approvers threshold (map logMessage (messageContents ms))
     = tallyMessages topicId approvers threshold ms"
  by (simp add: tallyMessages_def Let_def approvedMessage_contents countApprovals_contents)

lemma messageContents_append:
  "messageContents (xs @ ys) = messageContents xs @ messageContents ys"
  by (simp add: messageContents_def List.map_filter_def)

lemma messageContents_Cons:
  "messageContents (m # ms) =
     (case messageContent m of None \<Rightarrow> messageContents ms | Some c \<Rightarrow> c # messageContents ms)"
  by (simp add: messageContents_def map_filter_simps split: option.splits)

lemma extractMessages_contents:
  "messageContents (extractMessages v) =
     (case v of
        JArr xs \<Rightarrow> messageContents xs
      | JObj fs ts \<Rightarrow>
          (case getProp v (lit ''messages'') of
             JArr xs \<Rightarrow> messageContents xs
           | _ \<Rightarrow> [])
      | _ \<Rightarrow> [])"
proof (cases v)
  case (JObj fs ts)
  then show ?thesis
    by (cases "getProp (JObj fs ts) (lit ''messages'')")
       (simp_all add: extractMessages_def messageContents_def map_filter_simps)
qed (simp_all add: extractMessages_def messageContents_def map_filter_simps)

lemma tallyApprovals_normalized:
  assumes "getMessages t topicId = Returns response"
  shows "case normalizeMessages parse response of
           Some contents \<Rightarrow>
             tallyApprovals parse t topicId approvers threshold
               = Inr (tallyMessages topicId approvers threshold (map logMessage contents))
         | None \<Rightarrow>
             (\<exists>r. tallyApprovals parse t topicId approvers threshold = Inr r
                  \<and> tr_status r = StatusError)"
proof (cases "parseMessagesResponse parse response")
  case (Inl e)
  then have "normalizeMessages parse response = None"
    by (auto simp: parseMessagesResponse_def normalizeMessages_def
        split: jsval.splits option.splits)
  with assms Inl show ?thesis
    by (simp add: tallyApprovals_unparsable)
next
  case (Inr v)
  then have "normalizeMessages parse response = Some (messageContents (extractMessages v))"
    by (auto simp: parseMessagesResponse_def normalizeMessages_def extractMessages_contents
        split: jsval.splits option.splits)
  with assms Inr show ?thesis
    by (simp add: tallyApprovals_parsed tallyMessages_contents)
qed

section \<open>The approved report\<close>

lemma appendApproverLines_concat:
  "appendApproverLines va as message = message @ concat (map (approverLine va) as)"
  by (induction as arbitrary: message) simp_all

lemma includesStr_prefix: "includesStr (p @ post) p"
proof (cases "p @ post")
  case Nil
  then show ?thesis by simp
next
  case (Cons c cs)
  have "startsWith (p @ post) p"
    by (rule startsWith_append)
  with Cons show ?thesis by simp
qed

lemma includesStr_append: "includesStr (pre @ p @ post) p"
proof (induction pre)
  case Nil
  show ?case by (simp add: includesStr_prefix)
next
  case (Cons c pre)
  then show ?case by simp
qed

lemma list_ex_isProposalMessage:
  "list_ex isProposalMessage messages \<longleftrightarrow> (\<exists>m \<in> set messages. isProposalMessage m)"
  by (simp add: list_ex_iff)

lemma approvedMessage_eq:
  "approvedMessage topicId approvers threshold messages va =
     approvedHead topicId (length va) (findProposal approvers threshold messages detailsNotFound)
     @ concat (map (approverLine va)
         (if list_ex isProposalMessage messages then sort approvers else []))
     @ approvedTail topicId"
proof (cases "list_ex isProposalMessage messages")
  case True
  then have "\<exists>m \<in> set messages. isProposalMessage m"
    by (simp add: list_ex_iff)
  from findProposal_some[OF this, of approvers threshold detailsNotFound] True
  show ?thesis
    by (simp add: approvedMessage_def Let_def appendApproverLines_concat)
next
  case False
  then have "\<forall>m \<in> set messages. \<not> isProposalMessage m"
    by (simp add: list_ex_iff)
  from findProposal_none[OF this, of approvers threshold detailsNotFound] False
  show ?thesis
    by (simp add: approvedMessage_def Let_def appendApproverLines_concat detailsNotFound_def)
qed

text \<open>
  C7 (amended). For every approved tally of a history that has a message starting with
  \<open>Proposal:\<close>, the report is its heading, then one line \<open>- id (approved)\<close> or
  \<open>- id (not approved)\<close> for every configured approver, in lexicographic order of the
  identifiers and according to membership in the set of valid approvals, then the closing
  part, which holds the fixed-format URL built from the topic identifier. For an approved
  tally of a history without such a message the report has the same heading and closing
  part and no approver line at all, which is where the claim as stated fails.
\<close>

theorem approved_report_lists_approvers:
  assumes "getMessages t topicId = Returns (JArr messages)"
    and "tallyApprovals parse t topicId approvers threshold = Inr r"
    and "tr_isApproved r"
  shows "tr_message r =
           approvedHead topicId (tr_approvals r)
             (findProposal approvers threshold messages detailsNotFound)
           @ concat (map (\<lambda>approver. lit ''- '' @ approver @ lit '' ''
                            @ (if approver \<in> set (countApprovals approvers messages [])
                               then lit ''(approved)'' else lit ''(not approved)'') @ nl)
               (if list_ex isProposalMessage messages then sort approvers else []))
           @ approvedTail topicId
         \<and> includesStr (approvedTail topicId)
             (lit ''https://hashscan.io/testnet/topic/'' @ topicId)
         \<and> sorted (sort approvers) \<and> set (sort approvers) = set approvers
         \<and> length (sort approvers) = length approvers"
proof -
  from assms(1,2) have r: "r = tallyMessages topicId approvers threshold messages"
    by (simp add: tallyApprovals_array)
  with assms(3) have "threshold \<le> int (length (countApprovals approvers messages []))"
    by (simp add: tallyMessages_isApproved)
  with r have "tr_message r =
      approvedMessage topicId approvers threshold messages (countApprovals approvers messages [])"
    by (simp add: tallyMessages_def Let_def)
  moreover have "tr_approvals r = length (countApprovals approvers messages [])"
    using r by (simp add: tallyMessages_approvals)
  moreover have "approverLine (countApprovals approvers messages []) =
      (\<lambda>approver. lit ''- '' @ approver @ lit '' ''
          @ (if approver \<in> set (countApprovals approvers messages [])
             then lit ''(approved)'' else lit ''(not approved)'') @ nl)"
    by (rule ext) (simp add: approverLine_def)
  ultimately have first: "tr_message r =
           approvedHead topicId (tr_approvals r)
             (findProposal approvers threshold messages detailsNotFound)
           @ concat (map (\<lambda>approver. lit ''- '' @ approver @ lit '' ''
                            @ (if approver \<in> set (countApprovals approvers messages [])
                               then lit ''(approved)'' else lit ''(not approved)'') @ nl)
               (if list_ex isProposalMessage messages then sort approvers else []))
           @ approvedTail topicId"
    by (simp only: approvedMessage_eq)
  have "approvedTail topicId =
      (nl @ lit ''Next Steps:'' @ nl
       @ lit ''The action described in the proposal can now be executed manually by the relevant party, as consensus has been recorded on Hedera.''
       @ nl @ [240, 376, 8221, 8212] @ lit '' View the immutable approval record on HashScan: '')
      @ (lit ''https://hashscan.io/testnet/topic/'' @ topicId)
      @ (nl @ lit ''The topic messages provide cryptographic proof of consensus.'')"
    by (simp add: approvedTail_def hashscanTopicUrl_def)
  then have second: "includesStr (approvedTail topicId)
             (lit ''https://hashscan.io/testnet/topic/'' @ topicId)"
    by (simp only: includesStr_append)
  from first second show ?thesis by simp
qed

theorem approved_report_lists_approvers_witness:
  "tr_isApproved (projr (tallyApprovals (\<lambda>s. None)
       (constTools (Returns JUndefined) (Returns JUndefined) (Returns (JArr scenarioMessages)))
       (lit ''0.0.5'') [lit ''c'', lit ''a'', lit ''b''] 2))
   \<and> tr_approvals (projr (tallyApprovals (\<lambda>s. None)
       (constTools (Returns JUndefined) (Returns JUndefined) (Returns (JArr scenarioMessages)))
       (lit ''0.0.5'') [lit ''c'', lit ''a'', lit ''b''] 2)) = 2
   \<and> tr_message (projr (tallyApprovals (\<lambda>s. None)
       (constTools (Returns JUndefined) (Returns JUndefined) (Returns (JArr scenarioMessages)))
       (lit ''0.0.5'') [lit ''c'', lit ''a'', lit ''b''] 2))
     = approvedHead (lit ''0.0.5'') 2
         \<lparr> proposalDescription = lit ''Buy gear'',
           foundApproversList = [lit ''c'', lit ''a'', lit ''b''],
           foundThreshold = lit ''2'' \<rparr>
       @ lit ''- a (approved)'' @ nl @ lit ''- b (approved)'' @ nl @ lit ''- c (not approved)'' @ nl
       @ approvedTail (lit ''0.0.5'')"
proof -
  let ?t = "constTools (Returns JUndefined) (Returns JUndefined) (Returns (JArr scenarioMessages))"
  let ?r = "projr (tallyApprovals (\<lambda>s. None) ?t (lit ''0.0.5'') [lit ''c'', lit ''a'', lit ''b''] 2)"
  have g: "getMessages ?t (lit ''0.0.5'') = Returns (JArr scenarioMessages)"
    by (simp add: constTools_def)
  have e: "tallyApprovals (\<lambda>s. None) ?t (lit ''0.0.5'') [lit ''c'', lit ''a'', lit ''b''] 2 = Inr ?r"
    by (simp add: tallyApprovals_array[OF g])
  have a: "tr_isApproved ?r"
    by code_simp
  have n: "tr_approvals ?r = 2"
    by code_simp
  have d: "findProposal [lit ''c'', lit ''a'', lit ''b''] 2 scenarioMessages detailsNotFound
      = \<lparr> proposalDescription = lit ''Buy gear'',
          foundApproversList = [lit ''c'', lit ''a'', lit ''b''],
          foundThreshold = lit ''2'' \<rparr>"
    by code_simp
  have l: "concat (map (\<lambda>approver. lit ''- '' @ approver @ lit '' ''
                            @ (if approver \<in> set (countApprovals [lit ''c'', lit ''a'', lit ''b''] scenarioMessages [])
                               then lit ''(approved)'' else lit ''(not approved)'') @ nl)
               (if list_ex isProposalMessage scenarioMessages
                then sort [lit ''c'', lit ''a'', lit ''b''] else []))
      = lit ''- a (approved)'' @ nl @ lit ''- b (approved)'' @ nl @ lit ''- c (not approved)'' @ nl"
    by code_simp
  from approved_report_lists_approvers[OF g e a] n d l a
  show ?thesis by simp
qed

theorem approved_report_without_proposal_counterexample:
  "tr_isApproved (projr (tallyApprovals (\<lambda>s. None)
       (constTools (Returns JUndefined) (Returns JUndefined)
          (Returns (JArr [logMessage (lit ''APPROVE:a'')])))
       (lit ''0.0.5'') [lit ''a''] 1))
   \<and> tr_message (projr (tallyApprovals (\<lambda>s. None)
       (constTools (Returns JUndefined) (Returns JUndefined)
          (Returns (JArr [logMessage (lit ''APPROVE:a'')])))
       (lit ''0.0.5'') [lit ''a''] 1))
     = approvedHead (lit ''0.0.5'') 1 detailsNotFound @ approvedTail (lit ''0.0.5'')
   \<and> \<not> includesStr (tr_message (projr (tallyApprovals (\<lambda>s. None)
       (constTools (Returns JUndefined) (Returns JUndefined)
          (Returns (JArr [logMessage (lit ''APPROVE:a'')])))
       (lit ''0.0.5'') [lit ''a''] 1))) (lit ''- a (approved)'')"
  by code_simp

section \<open>The topic identifier of a create response\<close>

lemma includesStr_nonempty: "includesStr s (lit ''.'') \<Longrightarrow> s \<noteq> []"
  by (cases s) (simp_all add: lit_def)

lemma convertTopicId_dottedText:
  assumes "isStringifiable v"
  shows "convertTopicId v = dottedText v"
proof (cases "callToString v")
  case None
  with assms show ?thesis
    by (simp add: convertTopicId_def dottedText_def)
next
  case (Some s)
  show ?thesis
  proof (cases "includesStr s (lit ''.'')")
    case True
    with includesStr_nonempty[OF True] Some assms show ?thesis
      by (simp add: convertTopicId_def dottedText_def)
  next
    case False
    with Some assms show ?thesis
      by (simp add: convertTopicId_def dottedText_def)
  qed
qed

lemma dottedText_nonempty: "dottedText v = Some s \<Longrightarrow> s \<noteq> []"
  by (auto simp: dottedText_def dest: includesStr_nonempty split: option.splits if_splits)

lemma typeof_TString: "typeof v = TString \<longleftrightarrow> (\<exists>s. v = JStr s)"
  by (cases v) simp_all

lemma nonEmpty_filter:
  "(case x of Some topicId \<Rightarrow> if topicId = [] then None else Some topicId | None \<Rightarrow> None)
     = Option.bind x nonEmpty"
  by (cases x) (simp_all add: nonEmpty_def)

lemma bind_dottedText: "Option.bind (dottedText v) nonEmpty = dottedText v"
  by (cases "dottedText v") (auto simp: nonEmpty_def dest: dottedText_nonempty)

lemma extractTopicId_object:
  assumes "truthy p \<and> typeof p = TObject"
  shows "extractTopicId p =
     (if typeof (nestedTopicId p) = TString then stringOf (nestedTopicId p)
      else if typeof (topTopicId p) = TString then stringOf (topTopicId p)
      else if isStringifiable (topTopicId p) then convertTopicId (topTopicId p)
      else if isStringifiable (nestedTopicId p) then convertTopicId (nestedTopicId p)
      else None)"
proof (cases "truthy (getProp p (lit ''receipt'')) \<and> typeof (getProp p (lit ''receipt'')) = TObject")
  case True
  with assms show ?thesis
    by (simp add: extractTopicId_def nestedTopicId_def topTopicId_def isStringifiable_def Let_def)
next
  case False
  then have "nestedTopicId p = JUndefined"
    by (auto simp: nestedTopicId_def Let_def)
  with assms False show ?thesis
    by (auto simp: extractTopicId_def topTopicId_def isStringifiable_def Let_def)
qed

lemma normalizedTopicId_alt:
  "normalizedTopicId p =
     (if typeof (nestedTopicId p) = TString then Option.bind (stringOf (nestedTopicId p)) nonEmpty
      else if typeof (topTopicId p) = TString then Option.bind (stringOf (topTopicId p)) nonEmpty
      else if isStringifiable (topTopicId p) then dottedText (topTopicId p)
      else dottedText (nestedTopicId p))"
  by (cases "nestedTopicId p"; cases "topTopicId p")
     (simp_all add: normalizedTopicId_def stringOf_def)

lemma dottedText_not_stringifiable: "\<not> isStringifiable v \<Longrightarrow> dottedText v = None"
  by (simp add: dottedText_def)

lemma extractTopicId_normalized:
  "Option.bind (extractTopicId p) nonEmpty = normalizedTopicId p"
proof (cases "truthy p \<and> typeof p = TObject")
  case False
  then have "getProp p k = JUndefined" for k
    by (cases p) simp_all
  then have "nestedTopicId p = JUndefined" "topTopicId p = JUndefined"
    by (simp_all add: nestedTopicId_def topTopicId_def)
  moreover from False have "extractTopicId p = None"
    by (auto simp: extractTopicId_def)
  ultimately show ?thesis
    by (simp add: normalizedTopicId_def isStringifiable_def dottedText_def)
next
  case True
  show ?thesis
    unfolding extractTopicId_object[OF True] normalizedTopicId_alt
    by (simp add: convertTopicId_dottedText bind_dottedText dottedText_not_stringifiable)
qed

lemma createProposalBody_parsed:
  assumes "createTopic t (memoOf d) = Returns response"
    and "response \<noteq> JUndefined"
    and "parseTopicResponse parse response = Inr parsed"
    and "\<forall>topicId message. \<exists>v. submitMessage t topicId message = Returns v"
  shows "createProposalBody parse t d approvers threshold =
     (case normalizedTopicId parsed of
        Some topicId \<Rightarrow>
          Inr \<lparr> cr_topicId = Some topicId, cr_status = StatusSuccess,
                cr_message = lit ''Proposal created. Share this Topic ID: '' @ topicId \<rparr>
      | None \<Rightarrow> Inl (extractionError response))"
proof (cases "extractTopicId parsed")
  case None
  with extractTopicId_normalized[of parsed] have "normalizedTopicId parsed = None"
    by simp
  with None assms(1,2,3) show ?thesis
    by (simp add: createProposalBody_def)
next
  case (Some topicId)
  show ?thesis
  proof (cases "topicId = []")
    case True
    with Some extractTopicId_normalized[of parsed] have "normalizedTopicId parsed = None"
      by (simp add: nonEmpty_def)
    with Some True assms(1,2,3) show ?thesis
      by (simp add: createProposalBody_def)
  next
    case False
    with Some extractTopicId_normalized[of parsed] have n: "normalizedTopicId parsed = Some topicId"
      by (simp add: nonEmpty_def)
    from assms(4) obtain v where
      "submitMessage t topicId (initialMessage d approvers threshold) = Returns v"
      by blast
    with Some False n assms(1,2,3) show ?thesis
      by (simp add: createProposalBody_def)
  qed
qed


lemma createProposal_unusable_response:
  assumes "createTopic t (memoOf d) = Returns response"
    and "(\<exists>s. response = JStr s \<and> parse s = None) \<or> response = JNull
         \<or> typeof response \<notin> {TString, TObject}"
  shows "\<exists>r. createProposal parse t d approvers threshold = Inr r
           \<and> cr_status r = StatusError \<and> cr_topicId r = None"
proof (cases "response = JUndefined")
  case True
  with assms(1) errorMessage_stringifyUndefinedError show ?thesis
    by (auto simp: createProposal_def createProposalBody_def)
next
  case False
  from assms(2) have "\<exists>m. parseTopicResponse parse response = Inl (newError m)"
    by (cases response) (auto simp: parseTopicResponse_def)
  with False assms(1) show ?thesis
    by (auto simp: createProposal_def createProposalBody_def errorMessage_newError)
qed

lemma createProposal_parsed:
  assumes "createTopic t (memoOf d) = Returns response"
    and "\<forall>topicId message. \<exists>v. submitMessage t topicId message = Returns v"
    and "(typeof response = TObject \<and> response \<noteq> JNull \<and> parsed = response)
         \<or> (\<exists>s. response = JStr s \<and> parse s = Some parsed)"
  shows "case normalizedTopicId parsed of
           Some topicId \<Rightarrow>
             createProposal parse t d approvers threshold =
               Inr \<lparr> cr_topicId = Some topicId, cr_status = StatusSuccess,
                     cr_message = lit ''Proposal created. Share this Topic ID: '' @ topicId \<rparr>
         | None \<Rightarrow>
             (\<exists>r. createProposal parse t d approvers threshold = Inr r
                  \<and> cr_status r = StatusError \<and> cr_topicId r = None)"
proof -
  from assms(3) have u: "response \<noteq> JUndefined"
    by auto
  from assms(3) have p: "parseTopicResponse parse response = Inr parsed"
    by (cases response) (auto simp: parseTopicResponse_def)
  show ?thesis
    using errorMessage_extractionError[of response]
    by (auto simp: createProposal_def createProposalBody_parsed[OF assms(1) u p assms(2)]
        split: option.splits)
qed

lemma normalizedTopicId_string_shapes:
  assumes "topicId \<noteq> []"
  shows "normalizedTopicId
           (plainObject [(lit ''receipt'', plainObject [(lit ''topicId'', JStr topicId)])])
           = Some topicId"
    and "normalizedTopicId (plainObject [(lit ''topicId'', JStr topicId)]) = Some topicId"
  using assms
  by (simp_all add: normalizedTopicId_def nestedTopicId_def topTopicId_def plainObject_def
        nonEmpty_def lit_def)

lemma normalizedTopicId_object_shapes:
  assumes "includesStr topicId (lit ''.'')"
  shows "normalizedTopicId
           (plainObject [(lit ''topicId'', JObj fs (ToStringReturns topicId))]) = Some topicId"
    and "normalizedTopicId
           (plainObject [(lit ''receipt'',
              plainObject [(lit ''topicId'', JObj fs (ToStringReturns topicId))])]) = Some topicId"
  using assms
  by (simp_all add: normalizedTopicId_def nestedTopicId_def topTopicId_def plainObject_def
        isStringifiable_def dottedText_def callToString_def lit_def)

text \<open>
  C5 (amended). A create response that is a string \<open>JSON.parse\<close> refuses, or that is
  neither a string nor an object, gives an error result. For every other response (an
  object, or a string parsed first) and a collaborator whose append returns,
  \<open>createProposal\<close> succeeds with exactly the identifier that these shapes give, tried
  in this order with the first match winning, and returns an error result when they give
  none: (1) a string under \<open>receipt\<close>, (2) a string at the top level, (3) an object at
  the top level that exposes a stringification, (4) such an object under \<open>receipt\<close>.
  The stringification of the object chosen by (3) or (4) is the identifier only if it
  contains a dot, and the string found by (1) or (2) only if it is not empty; a chosen
  shape that fails this check fails the operation, and no later shape is tried. Responses
  in the four shapes that carry the same identifier (with a dot for the object shapes)
  give that identifier. As stated the claim fails where the top-level identifier is an
  object whose stringification has no dot and \<open>receipt\<close> holds a good one: shape 4 is
  never tried.
\<close>

theorem topic_identifier_normalized:
  assumes "createTopic t (memoOf d) = Returns response"
    and "\<forall>topicId message. \<exists>v. submitMessage t topicId message = Returns v"
  shows "(((\<exists>s. response = JStr s \<and> parse s = None) \<or> response = JNull
            \<or> typeof response \<notin> {TString, TObject})
          \<longrightarrow> (\<exists>r. createProposal parse t d approvers threshold = Inr r
                 \<and> cr_status r = StatusError \<and> cr_topicId r = None))
       \<and> (((typeof response = TObject \<and> response \<noteq> JNull \<and> parsed = response)
            \<or> (\<exists>s. response = JStr s \<and> parse s = Some parsed))
          \<longrightarrow> (case normalizedTopicId parsed of
                 Some topicId \<Rightarrow>
                   createProposal parse t d approvers threshold =
                     Inr \<lparr> cr_topicId = Some topicId, cr_status = StatusSuccess,
                           cr_message = lit ''Proposal created. Share this Topic ID: '' @ topicId \<rparr>
               | None \<Rightarrow>
                   (\<exists>r. createProposal parse t d approvers threshold = Inr r
                        \<and> cr_status r = StatusError \<and> cr_topicId r = None)))
       \<and> (identifier \<noteq> []
          \<longrightarrow> normalizedTopicId
                (plainObject [(lit ''receipt'', plainObject [(lit ''topicId'', JStr identifier)])])
                = Some identifier
            \<and> normalizedTopicId (plainObject [(lit ''topicId'', JStr identifier)])
                = Some identifier)
       \<and> (includesStr identifier (lit ''.'')
          \<longrightarrow> normalizedTopicId
                (plainObject [(lit ''topicId'', JObj fs (ToStringReturns identifier))])
                = Some identifier
            \<and> normalizedTopicId
                (plainObject [(lit ''receipt'',
                   plainObject [(lit ''topicId'', JObj fs (ToStringReturns identifier))])])
                = Some identifier)"
  using createProposal_unusable_response[OF assms(1), of parse approvers threshold]
    createProposal_parsed[OF assms(1,2), of parsed parse approvers threshold]
    normalizedTopicId_string_shapes[of "identifier"]
    normalizedTopicId_object_shapes[of "identifier" fs]
  by blast

theorem topic_identifier_normalized_counterexample:
  "claimedTopicId
     (plainObject [(lit ''topicId'', plainObject []),
                   (lit ''receipt'', plainObject [(lit ''topicId'', sdkTopicId (lit ''0.0.7''))])])
     = Some (lit ''0.0.7'')
   \<and> createProposal (\<lambda>s. None)
       (constTools
          (Returns (plainObject [(lit ''topicId'', plainObject []),
             (lit ''receipt'', plainObject [(lit ''topicId'', sdkTopicId (lit ''0.0.7''))])]))
          (Returns JUndefined) (Returns JUndefined))
       (lit ''Buy gear'') [lit ''a''] 1
     = Inr \<lparr> cr_topicId = None, cr_status = StatusError,
             cr_message = lit ''Failed to create proposal: Failed to extract Topic ID string from createTopic response. Response type was object. Check logs above.'' \<rparr>
   \<and> claimedTopicId
       (plainObject [(lit ''receipt'', plainObject [(lit ''topicId'', JStr [])]),
                     (lit ''topicId'', JStr (lit ''0.0.7''))])
     = Some []
   \<and> createProposal (\<lambda>s. None)
       (constTools
          (Returns (plainObject [(lit ''receipt'', plainObject [(lit ''topicId'', JStr [])]),
                     (lit ''topicId'', JStr (lit ''0.0.7''))]))
          (Returns JUndefined) (Returns JUndefined))
       (lit ''Buy gear'') [lit ''a''] 1
     = Inr \<lparr> cr_topicId = None, cr_status = StatusError,
             cr_message = lit ''Failed to create proposal: Failed to extract Topic ID string from createTopic response. Response type was object. Check logs above.'' \<rparr>"
  by code_simp


theorem topic_identifier_normalized_witness:
  "createProposal jsonParse
      (constTools (Returns (JStr wrappedResponseText)) (Returns JUndefined) (Returns JUndefined))
      (lit ''Buy gear'') [lit ''a''] 1
     = Inr \<lparr> cr_topicId = Some (lit ''0.0.123456''), cr_status = StatusSuccess,
             cr_message = lit ''Proposal created. Share this Topic ID: '' @ lit ''0.0.123456'' \<rparr>
   \<and> createProposal jsonParse
      (constTools
         (Returns (plainObject [(lit ''receipt'',
            plainObject [(lit ''topicId'', sdkTopicId (lit ''0.0.123456''))])]))
         (Returns JUndefined) (Returns JUndefined))
      (lit ''Buy gear'') [lit ''a''] 1
     = Inr \<lparr> cr_topicId = Some (lit ''0.0.123456''), cr_status = StatusSuccess,
             cr_message = lit ''Proposal created. Share this Topic ID: '' @ lit ''0.0.123456'' \<rparr>
   \<and> normalizedTopicId (plainObject [(lit ''topicId'', JStr (lit ''0.0.123456''))])
     = Some (lit ''0.0.123456'')
   \<and> normalizedTopicId (plainObject [(lit ''topicId'', sdkTopicId (lit ''0.0.123456''))])
     = Some (lit ''0.0.123456'')
   \<and> (\<exists>r. createProposal jsonParse
          (constTools (Returns (JStr (lit ''not json''))) (Returns JUndefined) (Returns JUndefined))
          (lit ''Buy gear'') [lit ''a''] 1 = Inr r
        \<and> cr_status r = StatusError \<and> cr_topicId r = None)"
proof -
  let ?id = "lit ''0.0.123456''"
  let ?nested = "plainObject [(lit ''receipt'', plainObject [(lit ''topicId'', sdkTopicId ?id)])]"
  let ?t1 = "constTools (Returns (JStr wrappedResponseText)) (Returns JUndefined) (Returns JUndefined)"
  let ?t2 = "constTools (Returns ?nested) (Returns JUndefined) (Returns JUndefined)"
  let ?t3 = "constTools (Returns (JStr (lit ''not json''))) (Returns JUndefined) (Returns JUndefined)"
  have s1: "\<forall>topicId message. \<exists>v. submitMessage ?t1 topicId message = Returns v"
    and s2: "\<forall>topicId message. \<exists>v. submitMessage ?t2 topicId message = Returns v"
    and s3: "\<forall>topicId message. \<exists>v. submitMessage ?t3 topicId message = Returns v"
    by (simp_all add: constTools_def)
  have c1: "createTopic ?t1 (memoOf (lit ''Buy gear'')) = Returns (JStr wrappedResponseText)"
    and c2: "createTopic ?t2 (memoOf (lit ''Buy gear'')) = Returns ?nested"
    and c3: "createTopic ?t3 (memoOf (lit ''Buy gear'')) = Returns (JStr (lit ''not json''))"
    by (simp_all add: constTools_def)
  have p1: "jsonParse wrappedResponseText = Some (plainObject [(lit ''topicId'', JStr ?id)])"
    by code_simp
  have p3: "jsonParse (lit ''not json'') = None"
    by code_simp
  have d: "?id \<noteq> []" "includesStr ?id (lit ''.'')"
    by code_simp+
  have o2: "typeof ?nested = TObject \<and> ?nested \<noteq> JNull \<and> ?nested = ?nested"
    by (simp add: plainObject_def)
  note w1 = topic_identifier_normalized[OF c1 s1, of jsonParse "[lit ''a'']" 1
      "plainObject [(lit ''topicId'', JStr ?id)]" ?id "[]"]
  note w2 = topic_identifier_normalized[OF c2 s2, of jsonParse "[lit ''a'']" 1 ?nested ?id "[]"]
  note w3 = topic_identifier_normalized[OF c3 s3, of jsonParse "[lit ''a'']" 1 JNull ?id "[]"]
  from w1 d have n1: "normalizedTopicId (plainObject [(lit ''topicId'', JStr ?id)]) = Some ?id"
    and n2: "normalizedTopicId (plainObject [(lit ''topicId'', sdkTopicId ?id)]) = Some ?id"
    and n3: "normalizedTopicId ?nested = Some ?id"
    unfolding sdkTopicId_def by blast+
  from w1 p1 have "case normalizedTopicId (plainObject [(lit ''topicId'', JStr ?id)]) of
                 Some topicId \<Rightarrow>
                   createProposal jsonParse ?t1 (lit ''Buy gear'') [lit ''a''] 1 =
                     Inr \<lparr> cr_topicId = Some topicId, cr_status = StatusSuccess,
                           cr_message = lit ''Proposal created. Share this Topic ID: '' @ topicId \<rparr>
               | None \<Rightarrow>
                   (\<exists>r. createProposal jsonParse ?t1 (lit ''Buy gear'') [lit ''a''] 1 = Inr r
                        \<and> cr_status r = StatusError \<and> cr_topicId r = None)"
    by blast
  then have r1: "createProposal jsonParse ?t1 (lit ''Buy gear'') [lit ''a''] 1 =
                     Inr \<lparr> cr_topicId = Some ?id, cr_status = StatusSuccess,
                           cr_message = lit ''Proposal created. Share this Topic ID: '' @ ?id \<rparr>"
    unfolding n1 by simp
  from w2 o2 have "case normalizedTopicId ?nested of
                 Some topicId \<Rightarrow>
                   createProposal jsonParse ?t2 (lit ''Buy gear'') [lit ''a''] 1 =
                     Inr \<lparr> cr_topicId = Some topicId, cr_status = StatusSuccess,
                           cr_message = lit ''Proposal created. Share this Topic ID: '' @ topicId \<rparr>
               | None \<Rightarrow>
                   (\<exists>r. createProposal jsonParse ?t2 (lit ''Buy gear'') [lit ''a''] 1 = Inr r
                        \<and> cr_status r = StatusError \<and> cr_topicId r = None)"
    by blast
  then have r2: "createProposal jsonParse ?t2 (lit ''Buy gear'') [lit ''a''] 1 =
                     Inr \<lparr> cr_topicId = Some ?id, cr_status = StatusSuccess,
                           cr_message = lit ''Proposal created. Share this Topic ID: '' @ ?id \<rparr>"
    unfolding n3 by simp
  from w3 p3 have r3: "\<exists>r. createProposal jsonParse ?t3 (lit ''Buy gear'') [lit ''a''] 1 = Inr r
        \<and> cr_status r = StatusError \<and> cr_topicId r = None"
    by blast
  from r1 r2 n1 n2 r3 show ?thesis by blast
qed

section \<open>The tally of the normalized contents\<close>

lemma set_approvalIds:
  "set (approvalIds approvers contents) =
     {x. x \<in> set approvers \<and>
         (\<exists>m c. m \<in> set (map logMessage contents) \<and> messageContent m = Some c
              \<and> startsWith c (lit ''APPROVE:'') \<and> trim (drop 8 c) = x)}"
  by (auto simp: approvalIds_def messageContent_logMessage)

lemma countApprovals_approvalIds:
  "set (countApprovals approvers (map logMessage contents) []) = set (approvalIds approvers contents)"
  "length (countApprovals approvers (map logMessage contents) []) = length (approvalIds approvers contents)"
proof -
  show s: "set (countApprovals approvers (map logMessage contents) [])
      = set (approvalIds approvers contents)"
    unfolding set_approvalIds set_countApprovals by simp
  have "distinct (countApprovals approvers (map logMessage contents) [])"
    by (simp add: distinct_countApprovals)
  moreover have "distinct (approvalIds approvers contents)"
    by (simp add: approvalIds_def)
  ultimately show "length (countApprovals approvers (map logMessage contents) [])
      = length (approvalIds approvers contents)"
    using s by (metis distinct_card)
qed

lemma findProposal_logMessages:
  "findProposal approvers threshold (map logMessage contents) d =
     (case find (\<lambda>c. startsWith c (lit ''Proposal:'')) contents of
        Some c \<Rightarrow> readProposal approvers threshold c d
      | None \<Rightarrow> d)"
  by (induction contents) (simp_all add: hasMessageText_logMessage messageText_logMessage)

lemma approverLine_cong:
  "set va = set ids \<Longrightarrow> approverLine va = approverLine ids"
  by (rule ext) (simp add: approverLine_def)

lemma tallyMessages_logMessages:
  "tallyMessages topicId approvers threshold (map logMessage contents)
     = tallyContents topicId approvers threshold contents"
proof -
  let ?va = "countApprovals approvers (map logMessage contents) []"
  have l: "approverLine ?va = approverLine (approvalIds approvers contents)"
    by (rule approverLine_cong) (rule countApprovals_approvalIds)
  have "approvedMessage topicId approvers threshold (map logMessage contents) ?va =
      (let d = (case find (\<lambda>c. startsWith c (lit ''Proposal:'')) contents of
                 Some c \<Rightarrow> readProposal approvers threshold c detailsNotFound
               | None \<Rightarrow> detailsNotFound)
       in approvedHead topicId (length (approvalIds approvers contents)) d
          @ concat (map (approverLine (approvalIds approvers contents)) (sort (foundApproversList d)))
          @ approvedTail topicId)"
    by (simp add: approvedMessage_def Let_def findProposal_logMessages l
          countApprovals_approvalIds(2) appendApproverLines_concat)
  then show ?thesis
    by (simp add: tallyMessages_def tallyContents_def Let_def countApprovals_approvalIds(2))
qed


text \<open>
  C6. For every read response, the result of \<open>tallyApprovals\<close> is the tally of the
  ordered sequence of message contents that the specification's normalizer gives: the
  response, parsed first when it is a string, is an array, or an object whose
  \<open>messages\<close> is an array, and the contents are the \<open>message\<close> strings of its
  entries in order. An entry without a string \<open>message\<close> is skipped and raises no
  error: the result is the tally of the contents around it. When \<open>JSON.parse\<close> turns
  the text \<open>{"messages":[{"message":"APPROVE:a"}]}\<close> into the object it denotes, the
  result is the tally of the one content \<open>APPROVE:a\<close>.
\<close>

theorem messages_normalized_in_order:
  assumes "getMessages t topicId = Returns response"
  shows "(case normalizeMessages parse response of
            Some contents \<Rightarrow>
              tallyApprovals parse t topicId approvers threshold
                = Inr (tallyContents topicId approvers threshold contents)
          | None \<Rightarrow>
              (\<exists>r. tallyApprovals parse t topicId approvers threshold = Inr r
                   \<and> tr_status r = StatusError))
       \<and> (response = JStr scenarioResponseText
            \<and> parse scenarioResponseText
                = Some (plainObject [(lit ''messages'', JArr [logMessage (lit ''APPROVE:a'')])])
          \<longrightarrow> tallyApprovals parse t topicId approvers threshold
                = Inr (tallyContents topicId approvers threshold [lit ''APPROVE:a'']))
       \<and> (response = JArr (xs @ entry # ys) \<and> messageContent entry = None
          \<longrightarrow> tallyApprovals parse t topicId approvers threshold
                = Inr (tallyContents topicId approvers threshold
                         (messageContents xs @ messageContents ys)))"
proof -
  note n = tallyApprovals_normalized[OF assms, of parse approvers threshold]
  have first: "case normalizeMessages parse response of
            Some contents \<Rightarrow>
              tallyApprovals parse t topicId approvers threshold
                = Inr (tallyContents topicId approvers threshold contents)
          | None \<Rightarrow>
              (\<exists>r. tallyApprovals parse t topicId approvers threshold = Inr r
                   \<and> tr_status r = StatusError)"
    using n by (simp add: tallyMessages_logMessages split: option.splits)
  have second: "tallyApprovals parse t topicId approvers threshold
                = Inr (tallyContents topicId approvers threshold [lit ''APPROVE:a''])"
    if "response = JStr scenarioResponseText"
      and "parse scenarioResponseText
            = Some (plainObject [(lit ''messages'', JArr [logMessage (lit ''APPROVE:a'')])])"
  proof -
    from that have "normalizeMessages parse response = Some [lit ''APPROVE:a'']"
      by (simp add: normalizeMessages_def plainObject_def messageContents_def map_filter_simps
            messageContent_logMessage)
    with first show ?thesis by simp
  qed
  have third: "tallyApprovals parse t topicId approvers threshold
                = Inr (tallyContents topicId approvers threshold
                         (messageContents xs @ messageContents ys))"
    if "response = JArr (xs @ entry # ys)" and "messageContent entry = None"
  proof -
    from that have "normalizeMessages parse response
        = Some (messageContents xs @ messageContents ys)"
      by (simp add: normalizeMessages_def messageContents_append messageContents_Cons)
    with first show ?thesis by simp
  qed
  from first second third show ?thesis by blast
qed

theorem messages_normalized_in_order_witness:
  "jsonParse scenarioResponseText
     = Some (plainObject [(lit ''messages'', JArr [logMessage (lit ''APPROVE:a'')])])
   \<and> tallyApprovals jsonParse
        (constTools (Returns JUndefined) (Returns JUndefined) (Returns (JStr scenarioResponseText)))
        (lit ''0.0.5'') [lit ''a'', lit ''b''] 2
       = Inr (tallyContents (lit ''0.0.5'') [lit ''a'', lit ''b''] 2 [lit ''APPROVE:a''])
   \<and> tr_approvals (tallyContents (lit ''0.0.5'') [lit ''a'', lit ''b''] 2 [lit ''APPROVE:a'']) = 1
   \<and> tr_approvals (projr (tallyApprovals jsonParse
        (constTools (Returns JUndefined) (Returns JUndefined) (Returns (JStr scenarioResponseText)))
        (lit ''0.0.5'') [lit ''a'', lit ''b''] 2)) = 1
   \<and> tallyApprovals jsonParse
        (constTools (Returns JUndefined) (Returns JUndefined)
           (Returns (JArr ([logMessage (lit ''APPROVE:b'')]
              @ plainObject [(lit ''content'', JStr (lit ''APPROVE:c''))]
              # [logMessage (lit ''Proposal: Buy gear''), logMessage (lit ''APPROVE:a'')]))))
        (lit ''0.0.5'') [lit ''a'', lit ''b'', lit ''c''] 2
       = Inr (tallyContents (lit ''0.0.5'') [lit ''a'', lit ''b'', lit ''c''] 2
               [lit ''APPROVE:b'', lit ''Proposal: Buy gear'', lit ''APPROVE:a''])"
proof -
  let ?t = "constTools (Returns JUndefined) (Returns JUndefined) (Returns (JStr scenarioResponseText))"
  let ?xs = "[logMessage (lit ''APPROVE:b'')]"
  let ?entry = "plainObject [(lit ''content'', JStr (lit ''APPROVE:c''))]"
  let ?ys = "[logMessage (lit ''Proposal: Buy gear''), logMessage (lit ''APPROVE:a'')]"
  let ?u = "constTools (Returns JUndefined) (Returns JUndefined) (Returns (JArr (?xs @ ?entry # ?ys)))"
  have g: "getMessages ?t (lit ''0.0.5'') = Returns (JStr scenarioResponseText)"
    and h: "getMessages ?u (lit ''0.0.5'') = Returns (JArr (?xs @ ?entry # ?ys))"
    by (simp_all add: constTools_def)
  have p: "jsonParse scenarioResponseText
     = Some (plainObject [(lit ''messages'', JArr [logMessage (lit ''APPROVE:a'')])])"
    by code_simp
  have e: "messageContent ?entry = None"
    by code_simp
  have c: "messageContents ?xs @ messageContents ?ys
      = [lit ''APPROVE:b'', lit ''Proposal: Buy gear'', lit ''APPROVE:a'']"
    by (simp add: messageContents_Cons messageContent_logMessage messageContents_def)
  have v: "tr_approvals (tallyContents (lit ''0.0.5'') [lit ''a'', lit ''b''] 2 [lit ''APPROVE:a'']) = 1"
    by code_simp
  from messages_normalized_in_order[OF g, of jsonParse "[lit ''a'', lit ''b'']" 2] p
  have r1: "tallyApprovals jsonParse ?t (lit ''0.0.5'') [lit ''a'', lit ''b''] 2
       = Inr (tallyContents (lit ''0.0.5'') [lit ''a'', lit ''b''] 2 [lit ''APPROVE:a''])"
    by blast
  from messages_normalized_in_order[OF h, of jsonParse "[lit ''a'', lit ''b'', lit ''c'']" 2
      "?xs" "?entry" "?ys"] e
  have "tallyApprovals jsonParse ?u (lit ''0.0.5'') [lit ''a'', lit ''b'', lit ''c''] 2
       = Inr (tallyContents (lit ''0.0.5'') [lit ''a'', lit ''b'', lit ''c''] 2
               (messageContents ?xs @ messageContents ?ys))"
    by blast
  then have r2: "tallyApprovals jsonParse ?u (lit ''0.0.5'') [lit ''a'', lit ''b'', lit ''c''] 2
       = Inr (tallyContents (lit ''0.0.5'') [lit ''a'', lit ''b'', lit ''c''] 2
               [lit ''APPROVE:b'', lit ''Proposal: Buy gear'', lit ''APPROVE:a''])"
    unfolding c .
  from r1 v have w: "tr_approvals (projr (tallyApprovals jsonParse ?t (lit ''0.0.5'')
      [lit ''a'', lit ''b''] 2)) = 1"
    by simp
  from p r1 v w r2 show ?thesis by blast
qed

end
